theory Spec2Isabelle
  imports Main "HOL-Library.Word" "HOL-Library.Monad_Syntax"
begin

unbundle bit_operations_syntax

section \<open>The VIR instruction model (ir/implementation/Instruction.cpp)\<close>

subsection \<open>Opcodes\<close>

datatype Opcode =
    Add | And | Ashr | Atom | Bar | Bitcast | Bra | Call | Fdiv | Fmul | Fpext
  | Fptosi | Fptoui | Fptrunc | Frem | Launch | Ld | Lshr | Membar | Mul | Or
  | Ret | Setp | Sext | Sdiv | Shl | Sitofp | Srem | St | Sub | Trunc | Udiv
  | Uitofp | Urem | Xor | Zext | Phi | Psi | InvalidOpcode

text \<open>\<^verbatim>\<open>Instruction::toString(Opcode)\<close>.\<close>

fun Opcode_toString :: "Opcode \<Rightarrow> string" where
  "Opcode_toString Add = ''Add''"
| "Opcode_toString And = ''And''"
| "Opcode_toString Ashr = ''Ashr''"
| "Opcode_toString Atom = ''Atom''"
| "Opcode_toString Bar = ''Bar''"
| "Opcode_toString Bitcast = ''Bitcast''"
| "Opcode_toString Bra = ''Bra''"
| "Opcode_toString Call = ''Call''"
| "Opcode_toString Fdiv = ''Fdiv''"
| "Opcode_toString Fmul = ''Fmul''"
| "Opcode_toString Fpext = ''Fpext''"
| "Opcode_toString Fptosi = ''Fptosi''"
| "Opcode_toString Fptoui = ''Fptoui''"
| "Opcode_toString Fptrunc = ''Fptrunc''"
| "Opcode_toString Frem = ''Frem''"
| "Opcode_toString Launch = ''Launch''"
| "Opcode_toString Ld = ''Ld''"
| "Opcode_toString Lshr = ''Lshr''"
| "Opcode_toString Membar = ''Membar''"
| "Opcode_toString Mul = ''Mul''"
| "Opcode_toString Or = ''Or''"
| "Opcode_toString Ret = ''Ret''"
| "Opcode_toString Setp = ''Setp''"
| "Opcode_toString Sext = ''Sext''"
| "Opcode_toString Sdiv = ''Sdiv''"
| "Opcode_toString Shl = ''Shl''"
| "Opcode_toString Sitofp = ''Sitofp''"
| "Opcode_toString Srem = ''Srem''"
| "Opcode_toString St = ''St''"
| "Opcode_toString Sub = ''Sub''"
| "Opcode_toString Trunc = ''Trunc''"
| "Opcode_toString Udiv = ''Udiv''"
| "Opcode_toString Uitofp = ''Uitofp''"
| "Opcode_toString Urem = ''Urem''"
| "Opcode_toString Xor = ''Xor''"
| "Opcode_toString Zext = ''Zext''"
| "Opcode_toString Phi = ''Phi''"
| "Opcode_toString Psi = ''Psi''"
| "Opcode_toString InvalidOpcode = ''InvalidOpcode''"

subsection \<open>Operands and the operand store\<close>

text \<open>
  The operand classes, as the translator constructs them (the non-owning back-reference
  from an operand to its instruction is left out: it is never read by the code modelled
  here). A virtual register, an argument, a global and a basic block are referred to by
  their position in the table of the function or module that owns them.
\<close>

datatype PredicateModifier =
  StraightPredicate | InversePredicate | PredicateTrue | PredicateFalse

datatype Variable = GlobalVariable nat | BasicBlockVariable nat

datatype Operand =
    RegisterOperand nat
  | IndirectOperand nat int
  | ImmediateOperand "64 word"
  | ArgumentOperand nat
  | AddressOperand Variable
  | PredicateOperand "nat option" PredicateModifier

text \<open>
  Operands live on the C++ heap and instructions hold \<^verbatim>\<open>Operand*\<close>. The store is the
  list of operand objects allocated so far, an address is an index into it, \<^verbatim>\<open>new\<close>
  takes the next index, and \<open>None\<close> is the null pointer. Deallocation is not modelled.
\<close>

type_synonym heap = "Operand list"
type_synonym ptr = "nat option"

definition new_operand :: "Operand \<Rightarrow> heap \<Rightarrow> ptr \<times> heap" where
  "new_operand v h = (Some (length h), h @ [v])"

text \<open>Dereferencing: \<open>None\<close> where the pointer is null or dangling.\<close>

definition deref :: "heap \<Rightarrow> ptr \<Rightarrow> Operand option" where
  "deref h p = (case p of None \<Rightarrow> None
                | Some n \<Rightarrow> if n < length h then Some (h ! n) else None)"

text \<open>
  \<^verbatim>\<open>v[n]\<close> and \<^verbatim>\<open>v.back()\<close> on a \<^verbatim>\<open>std::vector\<close>: outside the vector the
  behaviour is undefined, which is the value \<open>None\<close> here.
\<close>

definition at :: "'a list \<Rightarrow> nat \<Rightarrow> 'a option" where
  "at xs n = (if n < length xs then Some (xs ! n) else None)"

definition vector_back :: "'a list \<Rightarrow> 'a option" where
  "vector_back xs = (if xs = [] then None else Some (last xs))"

definition slice :: "'a list \<Rightarrow> nat \<Rightarrow> nat \<Rightarrow> 'a list option" where
  "slice xs start n = (if start + n \<le> length xs then Some (take n (drop start xs)) else None)"

subsection \<open>Instructions\<close>

text \<open>
  The members the derived classes add to \<^verbatim>\<open>Instruction\<close>: the fixed-slot views
  (\<^verbatim>\<open>d\<close>, \<^verbatim>\<open>a\<close>, \<^verbatim>\<open>b\<close>, \<^verbatim>\<open>c\<close>, \<^verbatim>\<open>target\<close>) and the parallel arrays of Call, Phi
  and Psi. The tags that hold no operand (comparison, atomic operation, branch modifier,
  barrier level) are left out.
\<close>

datatype Fields =
    PlainFields
  | UnaryFields ptr ptr
  | BinaryFields ptr ptr ptr
  | AtomFields ptr ptr ptr ptr
  | BraFields ptr
  | CallFields ptr "ptr list" "ptr list"
  | StFields ptr ptr
  | PhiFields ptr "ptr list" "nat option list"
  | PsiFields ptr "ptr list" "ptr list"

record Instruction =
  opcode :: Opcode
  guard :: ptr
  block :: "nat option"
  instruction_id :: nat
  reads :: "ptr list"
  writes :: "ptr list"
  view :: Fields

text \<open>The constructors.\<close>

definition Instruction_new :: "Opcode \<Rightarrow> nat option \<Rightarrow> nat \<Rightarrow> Instruction" where
  "Instruction_new o' b n =
     \<lparr>opcode = o', guard = None, block = b, instruction_id = n,
      reads = [None], writes = [], view = PlainFields\<rparr>"

definition UnaryInstruction_new :: "Opcode \<Rightarrow> nat option \<Rightarrow> nat \<Rightarrow> Instruction" where
  "UnaryInstruction_new o' b n =
     (let i = Instruction_new o' b n
      in i\<lparr>writes := writes i @ [None], reads := reads i @ [None],
           view := UnaryFields None None\<rparr>)"

definition BinaryInstruction_new :: "Opcode \<Rightarrow> nat option \<Rightarrow> nat \<Rightarrow> Instruction" where
  "BinaryInstruction_new o' bb n =
     (let i = Instruction_new o' bb n
      in i\<lparr>writes := writes i @ [None], reads := reads i @ [None, None],
           view := BinaryFields None None None\<rparr>)"

definition Atom_new :: "nat option \<Rightarrow> nat \<Rightarrow> Instruction" where
  "Atom_new b n =
     (let i = BinaryInstruction_new Atom b n
      in i\<lparr>reads := reads i @ [None], view := AtomFields None None None None\<rparr>)"

definition Bra_new :: "nat option \<Rightarrow> nat \<Rightarrow> Instruction" where
  "Bra_new b n =
     (let i = Instruction_new Bra b n
      in i\<lparr>reads := reads i @ [None], view := BraFields None\<rparr>)"

definition Call_new :: "nat option \<Rightarrow> nat \<Rightarrow> Instruction" where
  "Call_new b n =
     (let i = Instruction_new Call b n
      in i\<lparr>reads := reads i @ [None], view := CallFields None [] []\<rparr>)"

definition St_new :: "nat option \<Rightarrow> nat \<Rightarrow> Instruction" where
  "St_new b n =
     (let i = Instruction_new St b n;
          rs = reads i @ [None, None]
      in i\<lparr>reads := rs, view := StFields (rs ! 1) (rs ! 2)\<rparr>)"

definition Phi_new :: "nat option \<Rightarrow> nat \<Rightarrow> Instruction" where
  "Phi_new b n =
     (let i = Instruction_new Phi b n
      in i\<lparr>writes := writes i @ [None], view := PhiFields None [] []\<rparr>)"

definition Psi_new :: "nat option \<Rightarrow> nat \<Rightarrow> Instruction" where
  "Psi_new b n =
     (let i = Instruction_new Psi b n
      in i\<lparr>writes := writes i @ [None], view := PsiFields None [] []\<rparr>)"

text \<open>
  \<^verbatim>\<open>Instruction::create\<close>: the factory. For \<^verbatim>\<open>InvalidOpcode\<close> no object is built and
  the assignment \<^verbatim>\<open>instruction->block = b\<close> goes through a null pointer (\<open>None\<close>).
  The id a default-constructed instruction gets is declared in the header; it is the
  parameter \<open>n\<close>.
\<close>

fun Instruction_create :: "Opcode \<Rightarrow> nat option \<Rightarrow> nat \<Rightarrow> Instruction option" where
  "Instruction_create InvalidOpcode b n = None"
| "Instruction_create Atom b n = Some (Atom_new b n)"
| "Instruction_create Bra b n = Some (Bra_new b n)"
| "Instruction_create Call b n = Some (Call_new b n)"
| "Instruction_create St b n = Some (St_new b n)"
| "Instruction_create Phi b n = Some (Phi_new b n)"
| "Instruction_create Psi b n = Some (Psi_new b n)"
| "Instruction_create Bar b n = Some (Instruction_new Bar b n)"
| "Instruction_create Launch b n = Some (Instruction_new Launch b n)"
| "Instruction_create Membar b n = Some (Instruction_new Membar b n)"
| "Instruction_create Ret b n = Some (Instruction_new Ret b n)"
| "Instruction_create Bitcast b n = Some (UnaryInstruction_new Bitcast b n)"
| "Instruction_create Fpext b n = Some (UnaryInstruction_new Fpext b n)"
| "Instruction_create Fptosi b n = Some (UnaryInstruction_new Fptosi b n)"
| "Instruction_create Fptoui b n = Some (UnaryInstruction_new Fptoui b n)"
| "Instruction_create Fptrunc b n = Some (UnaryInstruction_new Fptrunc b n)"
| "Instruction_create Ld b n = Some (UnaryInstruction_new Ld b n)"
| "Instruction_create Sext b n = Some (UnaryInstruction_new Sext b n)"
| "Instruction_create Sitofp b n = Some (UnaryInstruction_new Sitofp b n)"
| "Instruction_create Trunc b n = Some (UnaryInstruction_new Trunc b n)"
| "Instruction_create Uitofp b n = Some (UnaryInstruction_new Uitofp b n)"
| "Instruction_create Zext b n = Some (UnaryInstruction_new Zext b n)"
| "Instruction_create o' b n = Some (BinaryInstruction_new o' b n)"

subsection \<open>Copying\<close>

text \<open>
  The loops of the copy constructor and of \<^verbatim>\<open>operator=\<close> over a list of operands: a
  null entry stays null, every other entry is replaced by \<^verbatim>\<open>operand->clone()\<close>.

  Modelled from the spec: \<^verbatim>\<open>Operand::clone\<close>, which is not among the sources: a deep
  copy, that is a newly allocated operand with the content of the original. Cloning
  through a dangling pointer is undefined (\<open>None\<close>).
\<close>

fun cloneOperands :: "heap \<Rightarrow> ptr list \<Rightarrow> (heap \<times> ptr list) option" where
  "cloneOperands h [] = Some (h, [])"
| "cloneOperands h (None # ps) =
     (case cloneOperands h ps of None \<Rightarrow> None
      | Some (h', qs) \<Rightarrow> Some (h', None # qs))"
| "cloneOperands h (Some n # ps) =
     (if n < length h
      then (case cloneOperands (h @ [h ! n]) ps of None \<Rightarrow> None
            | Some (h', qs) \<Rightarrow> Some (h', Some (length h) # qs))
      else None)"

text \<open>
  \<^verbatim>\<open>Instruction::Instruction(const Instruction&)\<close>: the reads are cloned, the guard is
  set to \<^verbatim>\<open>reads[0]\<close>, then the writes are cloned.
\<close>

definition Instruction_copy :: "heap \<Rightarrow> Instruction \<Rightarrow> (heap \<times> Instruction) option" where
  "Instruction_copy h i =
     (case cloneOperands h (reads i) of None \<Rightarrow> None
      | Some (h1, rs) \<Rightarrow>
          (case at rs 0 of None \<Rightarrow> None
           | Some g \<Rightarrow>
               (case cloneOperands h1 (writes i) of None \<Rightarrow> None
                | Some (h2, ws) \<Rightarrow>
                    Some (h2, \<lparr>opcode = opcode i, guard = g, block = block i,
                               instruction_id = instruction_id i,
                               reads = rs, writes = ws, view = PlainFields\<rparr>))))"

text \<open>
  What the copy constructor of each derived class adds: the views are read again from
  the new lists \<open>rs\<close> (reads) and \<open>ws\<close> (writes); Call replays the counts of the
  original's \<^verbatim>\<open>returned\<close> and \<^verbatim>\<open>arguments\<close>; Phi and Psi push every entry of the new
  \<^verbatim>\<open>reads\<close> onto \<^verbatim>\<open>sources\<close> and copy the original's blocks or predicates.
\<close>

fun copy_view :: "Fields \<Rightarrow> ptr list \<Rightarrow> ptr list \<Rightarrow> Fields option" where
  "copy_view PlainFields rs ws = Some PlainFields"
| "copy_view (UnaryFields _ _) rs ws =
     do { d \<leftarrow> at ws 0; a \<leftarrow> at rs 1; Some (UnaryFields d a) }"
| "copy_view (BinaryFields _ _ _) rs ws =
     do { d \<leftarrow> vector_back ws; a \<leftarrow> at rs 1; b \<leftarrow> at rs 2; Some (BinaryFields d a b) }"
| "copy_view (AtomFields _ _ _ _) rs ws =
     do { d \<leftarrow> vector_back ws; a \<leftarrow> at rs 1; b \<leftarrow> at rs 2; c \<leftarrow> at rs 3;
          Some (AtomFields d a b c) }"
| "copy_view (BraFields _) rs ws =
     do { target \<leftarrow> at rs 1; Some (BraFields target) }"
| "copy_view (CallFields _ returned arguments) rs ws =
     do { target \<leftarrow> at rs 1;
          returned' \<leftarrow> slice ws 0 (length returned);
          arguments' \<leftarrow> slice rs 2 (length arguments);
          Some (CallFields target returned' arguments') }"
| "copy_view (StFields _ _) rs ws =
     do { d \<leftarrow> at rs 1; a \<leftarrow> at rs 2; Some (StFields d a) }"
| "copy_view (PhiFields _ sources blocks) rs ws =
     do { d \<leftarrow> vector_back ws; Some (PhiFields d rs blocks) }"
| "copy_view (PsiFields _ sources predicates) rs ws =
     do { d \<leftarrow> vector_back ws; Some (PsiFields d rs predicates) }"

text \<open>
  \<^verbatim>\<open>clone()\<close> of every concrete class is \<^verbatim>\<open>new C(*this)\<close>: the copy constructor of
  \<^verbatim>\<open>Instruction\<close>, then that of the derived class.
\<close>

definition clone :: "heap \<Rightarrow> Instruction \<Rightarrow> (heap \<times> Instruction) option" where
  "clone h i =
     (case Instruction_copy h i of None \<Rightarrow> None
      | Some (h', c) \<Rightarrow>
          (case copy_view (view i) (reads c) (writes c) of None \<Rightarrow> None
           | Some f \<Rightarrow> Some (h', c\<lparr>view := f\<rparr>)))"

text \<open>
  \<^verbatim>\<open>operator=\<close> from another object (assignment to itself returns at once and changes
  nothing). It differs from the copy constructor in one place:
  \<^verbatim>\<open>BinaryInstruction::operator=\<close> reads \<^verbatim>\<open>d\<close> from \<^verbatim>\<open>writes[0]\<close>, the constructor
  from \<^verbatim>\<open>writes.back()\<close>.
\<close>

fun assign_view :: "Fields \<Rightarrow> ptr list \<Rightarrow> ptr list \<Rightarrow> Fields option" where
  "assign_view (BinaryFields _ _ _) rs ws =
     do { d \<leftarrow> at ws 0; a \<leftarrow> at rs 1; b \<leftarrow> at rs 2; Some (BinaryFields d a b) }"
| "assign_view (AtomFields _ _ _ _) rs ws =
     do { d \<leftarrow> at ws 0; a \<leftarrow> at rs 1; b \<leftarrow> at rs 2; c \<leftarrow> at rs 3;
          Some (AtomFields d a b c) }"
| "assign_view f rs ws = copy_view f rs ws"

definition assign :: "heap \<Rightarrow> Instruction \<Rightarrow> (heap \<times> Instruction) option" where
  "assign h i =
     (case Instruction_copy h i of None \<Rightarrow> None
      | Some (h', c) \<Rightarrow>
          (case assign_view (view i) (reads c) (writes c) of None \<Rightarrow> None
           | Some f \<Rightarrow> Some (h', c\<lparr>view := f\<rparr>)))"

subsection \<open>Mutators\<close>

text \<open>
  Each mutator is \<open>None\<close> where the call writes outside a vector, and where the class
  of the instruction does not have the member function.
\<close>

definition setGuard :: "ptr \<Rightarrow> Instruction \<Rightarrow> Instruction option" where
  "setGuard p i =
     (if 0 < length (reads i) then Some (i\<lparr>reads := (reads i)[0 := p], guard := p\<rparr>)
      else None)"

fun setD_view :: "ptr \<Rightarrow> Fields \<Rightarrow> (bool \<times> nat \<times> Fields) option" where
  "setD_view p (UnaryFields d a) = Some (True, 0, UnaryFields p a)"
| "setD_view p (BinaryFields d a b) = Some (True, 0, BinaryFields p a b)"
| "setD_view p (AtomFields d a b c) = Some (True, 0, AtomFields p a b c)"
| "setD_view p (StFields d a) = Some (False, 1, StFields p a)"
| "setD_view p (PhiFields d ss bs) = Some (True, 0, PhiFields p ss bs)"
| "setD_view p (PsiFields d ss ps) = Some (True, 0, PsiFields p ss ps)"
| "setD_view p _ = None"

text \<open>
  \<^verbatim>\<open>setD\<close>: the slot is \<^verbatim>\<open>writes[0]\<close>, but \<^verbatim>\<open>reads[1]\<close> for a store.
\<close>

definition setD :: "ptr \<Rightarrow> Instruction \<Rightarrow> Instruction option" where
  "setD p i =
     (case setD_view p (view i) of None \<Rightarrow> None
      | Some (in_writes, n, f) \<Rightarrow>
          if in_writes
          then (if n < length (writes i)
                then Some (i\<lparr>writes := (writes i)[n := p], view := f\<rparr>) else None)
          else (if n < length (reads i)
                then Some (i\<lparr>reads := (reads i)[n := p], view := f\<rparr>) else None))"

fun setA_view :: "ptr \<Rightarrow> Fields \<Rightarrow> (nat \<times> Fields) option" where
  "setA_view p (UnaryFields d a) = Some (1, UnaryFields d p)"
| "setA_view p (BinaryFields d a b) = Some (1, BinaryFields d p b)"
| "setA_view p (AtomFields d a b c) = Some (1, AtomFields d p b c)"
| "setA_view p (StFields d a) = Some (2, StFields d p)"
| "setA_view p _ = None"

definition setA :: "ptr \<Rightarrow> Instruction \<Rightarrow> Instruction option" where
  "setA p i =
     (case setA_view p (view i) of None \<Rightarrow> None
      | Some (n, f) \<Rightarrow>
          if n < length (reads i)
          then Some (i\<lparr>reads := (reads i)[n := p], view := f\<rparr>) else None)"

fun setB_view :: "ptr \<Rightarrow> Fields \<Rightarrow> Fields option" where
  "setB_view p (BinaryFields d a b) = Some (BinaryFields d a p)"
| "setB_view p (AtomFields d a b c) = Some (AtomFields d a p c)"
| "setB_view p _ = None"

definition setB :: "ptr \<Rightarrow> Instruction \<Rightarrow> Instruction option" where
  "setB p i =
     (case setB_view p (view i) of None \<Rightarrow> None
      | Some f \<Rightarrow>
          if 2 < length (reads i)
          then Some (i\<lparr>reads := (reads i)[2 := p], view := f\<rparr>) else None)"

fun setTarget_view :: "ptr \<Rightarrow> Fields \<Rightarrow> Fields option" where
  "setTarget_view p (BraFields t) = Some (BraFields p)"
| "setTarget_view p (CallFields t rs as) = Some (CallFields p rs as)"
| "setTarget_view p _ = None"

definition setTarget :: "ptr \<Rightarrow> Instruction \<Rightarrow> Instruction option" where
  "setTarget p i =
     (case setTarget_view p (view i) of None \<Rightarrow> None
      | Some f \<Rightarrow>
          if 1 < length (reads i)
          then Some (i\<lparr>reads := (reads i)[1 := p], view := f\<rparr>) else None)"

definition addReturn :: "ptr \<Rightarrow> Instruction \<Rightarrow> Instruction option" where
  "addReturn p i =
     (case view i of
        CallFields t returned arguments \<Rightarrow>
          Some (i\<lparr>writes := writes i @ [p], view := CallFields t (returned @ [p]) arguments\<rparr>)
      | _ \<Rightarrow> None)"

definition addArgument :: "ptr \<Rightarrow> Instruction \<Rightarrow> Instruction option" where
  "addArgument p i =
     (case view i of
        CallFields t returned arguments \<Rightarrow>
          Some (i\<lparr>reads := reads i @ [p], view := CallFields t returned (arguments @ [p])\<rparr>)
      | _ \<Rightarrow> None)"

subsection \<open>Phi and Psi sources\<close>

text \<open>\<^verbatim>\<open>Phi::addSource\<close>: three \<^verbatim>\<open>push_back\<close>s.\<close>

definition Phi_addSource :: "ptr \<Rightarrow> nat option \<Rightarrow> Instruction \<Rightarrow> Instruction option" where
  "Phi_addSource source predecessor i =
     (case view i of
        PhiFields d sources blocks \<Rightarrow>
          Some (i\<lparr>reads := reads i @ [source],
                 view := PhiFields d (sources @ [source]) (blocks @ [predecessor])\<rparr>)
      | _ \<Rightarrow> None)"

text \<open>
  The loop of \<^verbatim>\<open>removeSource\<close>: three iterators advance together, over the blocks
  (or predicates), over the sources, and over the reads from their second entry. At the
  first entry equal to \<open>p\<close> the three positions are erased and the function returns; when
  the first list ends, nothing was erased. The result is the three lists as they are
  left. Where the second or third list ends before the first, an iterator is moved or
  erased past the end, which is undefined (\<open>None\<close>).
\<close>

fun eraseFirst :: "'a \<Rightarrow> 'a list \<Rightarrow> ptr list \<Rightarrow> ptr list
    \<Rightarrow> ('a list \<times> ptr list \<times> ptr list) option" where
  "eraseFirst p [] ss rs = Some ([], ss, rs)"
| "eraseFirst p (b # bs) (s # ss) (r # rs) =
     (if b \<noteq> p
      then (case eraseFirst p bs ss rs of None \<Rightarrow> None
            | Some (bs', ss', rs') \<Rightarrow> Some (b # bs', s # ss', r # rs'))
      else Some (bs, ss, rs))"
| "eraseFirst p (b # bs) ss rs = None"

definition Phi_removeSource :: "nat option \<Rightarrow> Instruction \<Rightarrow> Instruction option" where
  "Phi_removeSource predecessor i =
     (case view i of
        PhiFields d sources blocks \<Rightarrow>
          (case reads i of [] \<Rightarrow> None
           | g # rs \<Rightarrow>
               (case eraseFirst predecessor blocks sources rs of None \<Rightarrow> None
                | Some (blocks', sources', rs') \<Rightarrow>
                    Some (i\<lparr>reads := g # rs', view := PhiFields d sources' blocks'\<rparr>)))
      | _ \<Rightarrow> None)"

text \<open>\<^verbatim>\<open>Psi::addSource(predicate, source)\<close> and \<^verbatim>\<open>Psi::removeSource(predicate)\<close>.\<close>

definition Psi_addSource :: "ptr \<Rightarrow> ptr \<Rightarrow> Instruction \<Rightarrow> Instruction option" where
  "Psi_addSource predicate source i =
     (case view i of
        PsiFields d sources predicates \<Rightarrow>
          Some (i\<lparr>reads := reads i @ [source],
                 view := PsiFields d (sources @ [source]) (predicates @ [predicate])\<rparr>)
      | _ \<Rightarrow> None)"

definition Psi_removeSource :: "ptr \<Rightarrow> Instruction \<Rightarrow> Instruction option" where
  "Psi_removeSource predicate i =
     (case view i of
        PsiFields d sources predicates \<Rightarrow>
          (case reads i of [] \<Rightarrow> None
           | g # rs \<Rightarrow>
               (case eraseFirst predicate predicates sources rs of None \<Rightarrow> None
                | Some (predicates', sources', rs') \<Rightarrow>
                    Some (i\<lparr>reads := g # rs', view := PsiFields d sources' predicates'\<rparr>)))
      | _ \<Rightarrow> None)"

text \<open>
  The parity of a join: \<^verbatim>\<open>reads.size() - 1 == sources.size() == blocks.size()\<close> (or
  \<^verbatim>\<open>predicates.size()\<close>). The sizes are unsigned, so the subtraction is written as an
  addition on the other side: with no read at all the equation is false.
\<close>

definition parity :: "Instruction \<Rightarrow> bool" where
  "parity i =
     (case view i of
        PhiFields d sources blocks \<Rightarrow>
          length (reads i) = Suc (length sources) \<and> length sources = length blocks
      | PsiFields d sources predicates \<Rightarrow>
          length (reads i) = Suc (length sources) \<and> length sources = length predicates
      | _ \<Rightarrow> True)"

subsection \<open>Rendering\<close>

text \<open>
  \<^verbatim>\<open>Instruction::toString()\<close>. The two functions taken as parameters are
  \<^verbatim>\<open>PredicateOperand::isAlwaysTrue\<close> and \<^verbatim>\<open>Operand::toString\<close>, which are not among
  the sources. The result is \<open>None\<close> where a null or dangling operand is dereferenced.

  The loop over the writes puts a comma before every entry that differs, as a pointer,
  from the first entry.
\<close>

fun writesToString :: "(Operand \<Rightarrow> string) \<Rightarrow> heap \<Rightarrow> ptr \<Rightarrow> ptr list \<Rightarrow> string option" where
  "writesToString ts h w0 [] = Some []"
| "writesToString ts h w0 (w # ws) =
     (case deref h w of None \<Rightarrow> None
      | Some v \<Rightarrow>
          (case writesToString ts h w0 ws of None \<Rightarrow> None
           | Some rest \<Rightarrow> Some ((if w \<noteq> w0 then '', '' else []) @ ts v @ rest)))"

text \<open>
  The loop over the reads skips every entry equal, as a pointer, to the first entry, and
  puts a comma before every printed entry but the first printed one (the flag
  \<^verbatim>\<open>first\<close>).
\<close>

fun readsToString :: "(Operand \<Rightarrow> string) \<Rightarrow> heap \<Rightarrow> ptr \<Rightarrow> bool \<Rightarrow> ptr list
    \<Rightarrow> string option" where
  "readsToString ts h r0 first [] = Some []"
| "readsToString ts h r0 first (r # rs) =
     (if r = r0 then readsToString ts h r0 first rs
      else (case deref h r of None \<Rightarrow> None
            | Some v \<Rightarrow>
                (case readsToString ts h r0 False rs of None \<Rightarrow> None
                 | Some rest \<Rightarrow> Some ((if first then [] else '', '') @ ts v @ rest))))"

definition toString :: "(Operand \<Rightarrow> bool) \<Rightarrow> (Operand \<Rightarrow> string) \<Rightarrow> heap \<Rightarrow> Instruction
    \<Rightarrow> string option" where
  "toString isAlwaysTrue ts h i =
     (case deref h (guard i) of None \<Rightarrow> None
      | Some g \<Rightarrow>
          (case (case writes i of [] \<Rightarrow> Some [] | w0 # _ \<Rightarrow> writesToString ts h w0 (writes i))
           of None \<Rightarrow> None
           | Some ws \<Rightarrow>
               (case (case reads i of [] \<Rightarrow> Some []
                      | r0 # _ \<Rightarrow> readsToString ts h r0 True (reads i))
                of None \<Rightarrow> None
                | Some rs \<Rightarrow>
                    Some ((if isAlwaysTrue g then [] else ts g @ '' '')
                          @ Opcode_toString (opcode i) @ '' ''
                          @ ws
                          @ (if writes i \<noteq> [] \<and> 1 < length (reads i) then '', '' else [])
                          @ rs))))"

subsection \<open>The lifetime of an instruction\<close>

text \<open>
  The states an instruction object can be in: built by the factory, then changed by any
  sequence of the member functions above, or built as a copy of (or assigned from) an
  instruction that is itself in such a state.
\<close>

inductive lifetime :: "Instruction \<Rightarrow> bool" where
  created: "Instruction_create o' b n = Some i \<Longrightarrow> lifetime i"
| after_setGuard: "lifetime i \<Longrightarrow> setGuard p i = Some i' \<Longrightarrow> lifetime i'"
| after_setD: "lifetime i \<Longrightarrow> setD p i = Some i' \<Longrightarrow> lifetime i'"
| after_setA: "lifetime i \<Longrightarrow> setA p i = Some i' \<Longrightarrow> lifetime i'"
| after_setB: "lifetime i \<Longrightarrow> setB p i = Some i' \<Longrightarrow> lifetime i'"
| after_setTarget: "lifetime i \<Longrightarrow> setTarget p i = Some i' \<Longrightarrow> lifetime i'"
| after_addReturn: "lifetime i \<Longrightarrow> addReturn p i = Some i' \<Longrightarrow> lifetime i'"
| after_addArgument: "lifetime i \<Longrightarrow> addArgument p i = Some i' \<Longrightarrow> lifetime i'"
| after_Phi_addSource: "lifetime i \<Longrightarrow> Phi_addSource p b i = Some i' \<Longrightarrow> lifetime i'"
| after_Phi_removeSource: "lifetime i \<Longrightarrow> Phi_removeSource b i = Some i' \<Longrightarrow> lifetime i'"
| after_Psi_addSource: "lifetime i \<Longrightarrow> Psi_addSource q p i = Some i' \<Longrightarrow> lifetime i'"
| after_Psi_removeSource: "lifetime i \<Longrightarrow> Psi_removeSource q i = Some i' \<Longrightarrow> lifetime i'"
| cloned: "lifetime i \<Longrightarrow> clone h i = Some (h', i') \<Longrightarrow> lifetime i'"
| assigned: "lifetime i \<Longrightarrow> assign h i = Some (h', i') \<Longrightarrow> lifetime i'"

text \<open>
  The lengths of the operand lists that the views of each class rely on: the slots the
  constructor of the class pushed, and for a call the entries its views count.
\<close>

fun view_ok :: "Fields \<Rightarrow> nat \<Rightarrow> nat \<Rightarrow> bool" where
  "view_ok PlainFields r w = (1 \<le> r)"
| "view_ok (UnaryFields _ _) r w = (2 \<le> r \<and> 1 \<le> w)"
| "view_ok (BinaryFields _ _ _) r w = (3 \<le> r \<and> 1 \<le> w)"
| "view_ok (AtomFields _ _ _ _) r w = (4 \<le> r \<and> 1 \<le> w)"
| "view_ok (BraFields _) r w = (2 \<le> r)"
| "view_ok (CallFields _ returned arguments) r w =
     (2 + length arguments \<le> r \<and> length returned \<le> w)"
| "view_ok (StFields _ _) r w = (3 \<le> r)"
| "view_ok (PhiFields _ _ _) r w = (1 \<le> r \<and> 1 \<le> w)"
| "view_ok (PsiFields _ _ _) r w = (1 \<le> r \<and> 1 \<le> w)"

text \<open>
  An instruction whose operand slots are populated: every entry of its read and write
  lists points to an operand of the store.
\<close>

definition valid_ptr :: "heap \<Rightarrow> ptr \<Rightarrow> bool" where
  "valid_ptr h p = (case p of None \<Rightarrow> False | Some n \<Rightarrow> n < length h)"

definition populated :: "heap \<Rightarrow> Instruction \<Rightarrow> bool" where
  "populated h i = list_all (valid_ptr h) (reads i @ writes i)"

text \<open>
  Exclusive ownership: no operand is installed in two slots of the instruction.
\<close>

definition exclusive :: "Instruction \<Rightarrow> bool" where
  "exclusive i = distinct (reads i @ writes i)"

text \<open>
  A comma-separated list, as the two loops of \<^verbatim>\<open>toString\<close> print it when no later
  entry is the first entry again; \<open>first\<close> says whether the next entry is the first one
  printed.
\<close>

fun commaJoin :: "bool \<Rightarrow> string list \<Rightarrow> string" where
  "commaJoin first [] = []"
| "commaJoin first (s # ss) = (if first then [] else '', '') @ s @ commaJoin False ss"

text \<open>
  The text of an instruction with guard \<open>g\<close>, written operands \<open>ws\<close> and read operands
  \<open>rs\<close> (those after the guard slot): the guard unless it is always true, the opcode,
  the writes and the reads.
\<close>

definition rendering :: "(Operand \<Rightarrow> bool) \<Rightarrow> (Operand \<Rightarrow> string) \<Rightarrow> Opcode \<Rightarrow> Operand
    \<Rightarrow> Operand list \<Rightarrow> Operand list \<Rightarrow> string" where
  "rendering isAlwaysTrue ts oc g ws rs =
     (if isAlwaysTrue g then [] else ts g @ '' '')
     @ Opcode_toString oc @ '' ''
     @ commaJoin True (map ts ws)
     @ (if ws \<noteq> [] \<and> rs \<noteq> [] then '', '' else [])
     @ commaJoin True (map ts rs)"

section \<open>The source program\<close>

text \<open>
  The translator reads the source module through the PTX classes of the Ocelot library
  (\<^verbatim>\<open>ocelot/ir/interface\<close>), which are not among the sources. The records below hold
  the members the translator reads.
\<close>

datatype PTXDataType =
    TypeSpecifier_invalid | s8 | s16 | s32 | s64 | u8 | u16 | u32 | u64
  | f16 | f32 | f64 | b8 | b16 | b32 | b64 | pred

text \<open>
  Modelled from the spec: \<^verbatim>\<open>PTXOperand::isFloat\<close>, \<^verbatim>\<open>PTXOperand::isSigned\<close> and
  \<^verbatim>\<open>PTXOperand::bytes\<close>, the type class and the width of a source type: the float
  types, the signed integer types, and 1, 2, 4 or 8 bytes for the 8, 16, 32 and 64-bit
  types.
\<close>

fun isFloat :: "PTXDataType \<Rightarrow> bool" where
  "isFloat f16 = True"
| "isFloat f32 = True"
| "isFloat f64 = True"
| "isFloat _ = False"

fun isSigned :: "PTXDataType \<Rightarrow> bool" where
  "isSigned s8 = True"
| "isSigned s16 = True"
| "isSigned s32 = True"
| "isSigned s64 = True"
| "isSigned _ = False"

fun bytes :: "PTXDataType \<Rightarrow> nat" where
  "bytes pred = 1" | "bytes b8 = 1" | "bytes u8 = 1" | "bytes s8 = 1"
| "bytes u16 = 2" | "bytes f16 = 2" | "bytes b16 = 2" | "bytes s16 = 2"
| "bytes u32 = 4" | "bytes b32 = 4" | "bytes f32 = 4" | "bytes s32 = 4"
| "bytes f64 = 8" | "bytes u64 = 8" | "bytes b64 = 8" | "bytes s64 = 8"
| "bytes TypeSpecifier_invalid = 0"

datatype AddressMode =
    Register | Indirect | Immediate | Address | Label | Special | ArgumentList
  | FunctionName | BitBucket | Invalid

datatype PredicateCondition = PT | nPT | Pred | InvPred

text \<open>
  Modelled from the spec: the special registers (thread, block and grid identifiers and
  the scalar ones), the lane of a vector special, and their canonical names, which are
  enumerations and \<^verbatim>\<open>toString\<close> functions of Ocelot's \<^verbatim>\<open>PTXOperand\<close>. An enumerator
  converts to the \<^verbatim>\<open>unsigned int\<close> of its position in the enumeration; the lanes x, y,
  z and w are the bits 1, 2, 4 and 8, and 0 names the whole vector. \<^verbatim>\<open>PTXOperand::v1\<close>
  is the enumerator of the vector widths (1, 2 and 4) for a scalar. The theorems below
  rely on two facts about these numbers only: different lanes have different values
  below 16, and the values of the lanes z and w are not the value of \<^verbatim>\<open>v1\<close>.
\<close>

datatype SpecialRegister =
    tid | ntid | laneId | warpId | nwarpId | warpSize | ctaId | nctaId | smId | nsmId
  | gridId | clock | clock64 | lanemask_eq | lanemask_le | lanemask_lt | lanemask_ge
  | lanemask_gt | pm0 | pm1 | pm2 | pm3 | SpecialRegister_invalid

fun SpecialRegister_value :: "SpecialRegister \<Rightarrow> 32 word" where
  "SpecialRegister_value tid = 0"
| "SpecialRegister_value ntid = 1"
| "SpecialRegister_value laneId = 2"
| "SpecialRegister_value warpId = 3"
| "SpecialRegister_value nwarpId = 4"
| "SpecialRegister_value warpSize = 5"
| "SpecialRegister_value ctaId = 6"
| "SpecialRegister_value nctaId = 7"
| "SpecialRegister_value smId = 8"
| "SpecialRegister_value nsmId = 9"
| "SpecialRegister_value gridId = 10"
| "SpecialRegister_value clock = 11"
| "SpecialRegister_value clock64 = 12"
| "SpecialRegister_value lanemask_eq = 13"
| "SpecialRegister_value lanemask_le = 14"
| "SpecialRegister_value lanemask_lt = 15"
| "SpecialRegister_value lanemask_ge = 16"
| "SpecialRegister_value lanemask_gt = 17"
| "SpecialRegister_value pm0 = 18"
| "SpecialRegister_value pm1 = 19"
| "SpecialRegister_value pm2 = 20"
| "SpecialRegister_value pm3 = 21"
| "SpecialRegister_value SpecialRegister_invalid = 22"

fun SpecialRegister_toString :: "SpecialRegister \<Rightarrow> string" where
  "SpecialRegister_toString tid = ''%tid''"
| "SpecialRegister_toString ntid = ''%ntid''"
| "SpecialRegister_toString laneId = ''%laneid''"
| "SpecialRegister_toString warpId = ''%warpid''"
| "SpecialRegister_toString nwarpId = ''%nwarpid''"
| "SpecialRegister_toString warpSize = ''WARP_SZ''"
| "SpecialRegister_toString ctaId = ''%ctaid''"
| "SpecialRegister_toString nctaId = ''%nctaid''"
| "SpecialRegister_toString smId = ''%smid''"
| "SpecialRegister_toString nsmId = ''%nsmid''"
| "SpecialRegister_toString gridId = ''%gridid''"
| "SpecialRegister_toString clock = ''%clock''"
| "SpecialRegister_toString clock64 = ''%clock64''"
| "SpecialRegister_toString lanemask_eq = ''%lanemask_eq''"
| "SpecialRegister_toString lanemask_le = ''%lanemask_le''"
| "SpecialRegister_toString lanemask_lt = ''%lanemask_lt''"
| "SpecialRegister_toString lanemask_ge = ''%lanemask_ge''"
| "SpecialRegister_toString lanemask_gt = ''%lanemask_gt''"
| "SpecialRegister_toString pm0 = ''%pm0''"
| "SpecialRegister_toString pm1 = ''%pm1''"
| "SpecialRegister_toString pm2 = ''%pm2''"
| "SpecialRegister_toString pm3 = ''%pm3''"
| "SpecialRegister_toString SpecialRegister_invalid = ''SpecialRegister_invalid''"

datatype VectorIndex = iAll | ix | iy | iz | iw

fun VectorIndex_value :: "VectorIndex \<Rightarrow> 32 word" where
  "VectorIndex_value iAll = 0"
| "VectorIndex_value ix = 1"
| "VectorIndex_value iy = 2"
| "VectorIndex_value iz = 4"
| "VectorIndex_value iw = 8"

fun VectorIndex_toString :: "VectorIndex \<Rightarrow> string" where
  "VectorIndex_toString ix = ''x''"
| "VectorIndex_toString iy = ''y''"
| "VectorIndex_toString iz = ''z''"
| "VectorIndex_toString iw = ''w''"
| "VectorIndex_toString iAll = []"

definition v1 :: "32 word" where
  "v1 = 1"

record PTXOperand =
  addressMode :: AddressMode
  dataType :: PTXDataType
  reg :: nat
  offset :: int
  imm_uint :: "64 word"
  operand_identifier :: string
  isArgument :: bool
  special :: SpecialRegister
  vIndex :: VectorIndex
  condition :: PredicateCondition

text \<open>
  The source opcodes the translator names, and \<open>PTX_Other\<close> for every other opcode of
  the source instruction set. The modifier is a set of flags; only its comparison with
  \<^verbatim>\<open>Modifier_invalid\<close> is read.
\<close>

datatype PTXOpcode =
    PTX_Add | PTX_And | PTX_Div | PTX_Mul | PTX_Not | PTX_Or | PTX_Rem | PTX_Shl
  | PTX_Sub | PTX_Xor | PTX_Ld | PTX_Ldu | PTX_Mov | PTX_St | PTX_Cvt | PTX_Other nat

datatype Modifier = Modifier_invalid | Modifier_flags nat

datatype AddressSpace = Param | AddressSpace_other

record PTXInstruction =
  ptx_opcode :: PTXOpcode
  modifier :: Modifier
  ptx_type :: PTXDataType
  addressSpace :: AddressSpace
  ptx_pg :: PTXOperand
  ptx_d :: PTXOperand
  ptx_a :: PTXOperand
  ptx_b :: PTXOperand

record PTXBasicBlock =
  block_id :: nat
  label :: string
  ptx_instructions :: "PTXInstruction list"

text \<open>
  The attribute of a statement and the linking directive of a kernel prototype; the
  translator compares each with its \<^verbatim>\<open>Extern\<close> only.
\<close>

datatype Attribute = Statement_Extern | Statement_Visible | Statement_NoAttribute

datatype LinkingDirective = Prototype_Extern | Prototype_Visible | Prototype_InternalHidden

text \<open>
  A kernel: the registers \<^verbatim>\<open>getReferencedRegisters()\<close> returns (id and type), and the
  control-flow graph with its executable sequence and its entry and exit blocks (a block
  is identified by \<open>block_id\<close>, the address of the block object).
\<close>

record PTXKernel =
  kernel_name :: string
  linkingDirective :: LinkingDirective
  referencedRegisters :: "(nat \<times> PTXDataType) list"
  executable_sequence :: "PTXBasicBlock list"
  entry_block :: nat
  exit_block :: nat

record PTXGlobal =
  global_name :: string
  global_type :: PTXDataType
  attribute :: Attribute
  initializedBytes :: nat

record PTXModule =
  path :: string
  ptx_globals :: "PTXGlobal list"
  kernels :: "PTXKernel list"

section \<open>The translator (translation/implementation/PTXToVIRTranslator.cpp)\<close>

subsection \<open>The target module\<close>

datatype Linkage = ExternalLinkage | PrivateLinkage

record VirtualRegister =
  vr_id :: nat
  vr_type :: string
  vr_name :: string

record BasicBlock =
  bb_name :: string
  instructions :: "Instruction list"

record Function =
  function_name :: string
  function_linkage :: Linkage
  virtual_registers :: "VirtualRegister list"
  basic_blocks :: "BasicBlock list"
  function_arguments :: "string list"

record Global =
  gl_name :: string
  gl_type :: string
  gl_linkage :: Linkage

record Module =
  name_of_module :: string
  module_functions :: "Function list"
  module_globals :: "Global list"

text \<open>
  \<^verbatim>\<open>Module::newGlobal\<close> and \<^verbatim>\<open>Module::newFunction\<close> insert at the end of their list;
  \<^verbatim>\<open>Module::getGlobal\<close> scans the list and returns the position of the first global of
  that name, or the end of the list (Module.cpp).
\<close>

definition newGlobal :: "string \<Rightarrow> string \<Rightarrow> Linkage \<Rightarrow> Module \<Rightarrow> Module" where
  "newGlobal name ty l m =
     m\<lparr>module_globals := module_globals m @ [\<lparr>gl_name = name, gl_type = ty, gl_linkage = l\<rparr>]\<rparr>"

definition newFunction :: "string \<Rightarrow> Linkage \<Rightarrow> Module \<Rightarrow> Module" where
  "newFunction name l m =
     m\<lparr>module_functions := module_functions m @
        [\<lparr>function_name = name, function_linkage = l, virtual_registers = [],
          basic_blocks = [], function_arguments = []\<rparr>]\<rparr>"

fun getGlobal_scan :: "string \<Rightarrow> Global list \<Rightarrow> nat" where
  "getGlobal_scan name [] = 0"
| "getGlobal_scan name (g # gs) = (if gl_name g = name then 0 else Suc (getGlobal_scan name gs))"

definition getGlobal :: "string \<Rightarrow> Module \<Rightarrow> nat" where
  "getGlobal name m = getGlobal_scan name (module_globals m)"

text \<open>
  Modelled from the spec: \<^verbatim>\<open>Function::newVirtualRegister\<close>,
  \<^verbatim>\<open>Function::newBasicBlock\<close> and \<^verbatim>\<open>BasicBlock::push_back\<close>, which are not among the
  sources. A virtual register is (id, type, name) with an id unique within its function:
  the new register takes the next id. A new block is inserted immediately before the
  function's terminal block: \<open>basic_blocks\<close> lists the blocks before the terminal one,
  so the new block becomes its last entry. \<^verbatim>\<open>push_back\<close> puts an instruction at the end
  of a block.
\<close>

definition newVirtualRegister :: "string \<Rightarrow> string \<Rightarrow> Function \<Rightarrow> nat \<times> Function" where
  "newVirtualRegister ty name f =
     (length (virtual_registers f),
      f\<lparr>virtual_registers := virtual_registers f @
           [\<lparr>vr_id = length (virtual_registers f), vr_type = ty, vr_name = name\<rparr>]\<rparr>)"

definition newBasicBlock :: "string \<Rightarrow> Function \<Rightarrow> Function" where
  "newBasicBlock name f =
     f\<lparr>basic_blocks := basic_blocks f @ [\<lparr>bb_name = name, instructions = []\<rparr>]\<rparr>"

definition push_back :: "Instruction \<Rightarrow> BasicBlock \<Rightarrow> BasicBlock" where
  "push_back i bb = bb\<lparr>instructions := instructions bb @ [i]\<rparr>"

text \<open>
  Modelled from the spec: \<^verbatim>\<open>Compiler::getType\<close>, which is not among the sources: the
  target types are the 1, 8, 16, 32 and 64-bit integers and the 32 and 64-bit floats; any
  other name is not a type (a null pointer, \<open>None\<close>). A type is referred to by its name.
\<close>

definition Compiler_getType :: "string \<Rightarrow> string option" where
  "Compiler_getType name =
     (if name \<in> set [''i1'', ''i8'', ''i16'', ''i32'', ''i64'', ''f32'', ''f64'']
      then Some name else None)"

subsection \<open>Errors and the translator's state\<close>

text \<open>
  Every way a translation stops: a \<^verbatim>\<open>std::runtime_error\<close> with its message; the
  \<^verbatim>\<open>runtime_error\<close> of \<^verbatim>\<open>_newTranslatedOperand\<close> and the failed assertion of
  \<^verbatim>\<open>_translateInstruction\<close>, whose messages end with the text of the source operand or
  instruction (given here by the operand or instruction itself); the failed assertion
  \<^verbatim>\<open>"Not implemented."\<close>; a member call through a null or uninitialised pointer;
  and an access outside a vector.
\<close>

datatype error =
    RuntimeError string
  | NoOperandTranslation PTXOperand
  | NoInstructionTranslation PTXInstruction
  | NotImplemented
  | NullDereference
  | OutOfRange

definition and_then :: "error + 'a \<Rightarrow> ('a \<Rightarrow> error + 'b) \<Rightarrow> error + 'b" where
  "and_then r f = (case r of Inl e \<Rightarrow> Inl e | Inr x \<Rightarrow> f x)"

text \<open>
  The members of the translator: \<^verbatim>\<open>_module\<close>, the maps \<^verbatim>\<open>_registers\<close>,
  \<^verbatim>\<open>_specialRegisters\<close> and \<^verbatim>\<open>_blocks\<close>, and the operand store. \<^verbatim>\<open>_function\<close>
  always points to the function inserted last and \<^verbatim>\<open>_block\<close> to the block inserted
  last into it, so they are read as the last entries of their lists (and are
  uninitialised while the list is empty). \<^verbatim>\<open>_instruction\<close> is only handed to the
  operands as their back-reference and is left out.
\<close>

record Translator =
  m_module :: Module
  m_registers :: "nat \<rightharpoonup> nat"
  m_specialRegisters :: "32 word \<rightharpoonup> nat"
  m_blocks :: "string \<rightharpoonup> nat"
  m_heap :: heap

definition Translator_new :: Translator where
  "Translator_new =
     \<lparr>m_module = \<lparr>name_of_module = [], module_functions = [], module_globals = []\<rparr>,
      m_registers = Map.empty, m_specialRegisters = Map.empty, m_blocks = Map.empty,
      m_heap = []\<rparr>"

definition current_function :: "Translator \<Rightarrow> Function option" where
  "current_function t =
     (if module_functions (m_module t) = [] then None else Some (last (module_functions (m_module t))))"

definition set_current_function :: "Function \<Rightarrow> Translator \<Rightarrow> Translator" where
  "set_current_function f t =
     t\<lparr>m_module := (m_module t)\<lparr>module_functions := butlast (module_functions (m_module t)) @ [f]\<rparr>\<rparr>"

text \<open>\<^verbatim>\<open>new\<close> of an operand in the translator's store.\<close>

definition new_in :: "Operand \<Rightarrow> Translator \<Rightarrow> ptr \<times> Translator" where
  "new_in v t = (Some (length (m_heap t)), t\<lparr>m_heap := m_heap t @ [v]\<rparr>)"

subsection \<open>Types, linkage and names\<close>

fun translateTypeName :: "PTXDataType \<Rightarrow> string" where
  "translateTypeName b8 = ''i8''"
| "translateTypeName s8 = ''i8''"
| "translateTypeName u8 = ''i8''"
| "translateTypeName s16 = ''i16''"
| "translateTypeName u16 = ''i16''"
| "translateTypeName b16 = ''i16''"
| "translateTypeName s32 = ''i32''"
| "translateTypeName b32 = ''i32''"
| "translateTypeName u32 = ''i32''"
| "translateTypeName s64 = ''i64''"
| "translateTypeName b64 = ''i64''"
| "translateTypeName u64 = ''i64''"
| "translateTypeName f32 = ''f32''"
| "translateTypeName f64 = ''f64''"
| "translateTypeName pred = ''i1''"
| "translateTypeName _ = []"

definition getType :: "string \<Rightarrow> error + string" where
  "getType typeName =
     (case Compiler_getType typeName of
        None \<Rightarrow> Inl (RuntimeError (''PTX translated type name '' @ [CHR 0x27] @ typeName
                       @ [CHR 0x27] @ '' is not a valid Vanaheimr type.''))
      | Some ty \<Rightarrow> Inr ty)"

definition getType_of :: "PTXDataType \<Rightarrow> error + string" where
  "getType_of ptxType = getType (translateTypeName ptxType)"

definition translateLinkage :: "Attribute \<Rightarrow> Linkage" where
  "translateLinkage attr = (if attr = Statement_Extern then ExternalLinkage else PrivateLinkage)"

definition translateLinkingDirective :: "LinkingDirective \<Rightarrow> Linkage" where
  "translateLinkingDirective d =
     (if d = Prototype_Extern then ExternalLinkage else PrivateLinkage)"

text \<open>An unsigned number written to a stream: its decimal digits.\<close>

function showNat :: "nat \<Rightarrow> string" where
  "showNat n =
     (if n < 10 then [''0123456789'' ! n]
      else showNat (n div 10) @ [''0123456789'' ! (n mod 10)])"
  by pat_completeness auto
termination
  by (relation "measure id") auto

declare showNat.simps [simp del]

subsection \<open>Registers\<close>

definition translateRegisterValue :: "nat \<Rightarrow> PTXDataType \<Rightarrow> Translator \<Rightarrow> error + Translator" where
  "translateRegisterValue r ty t =
     (let name = ''r'' @ showNat r
      in if m_registers t r \<noteq> None
         then Inl (RuntimeError (''Added duplicate virtual register '' @ [CHR 0x27] @ name
                     @ [CHR 0x27]))
         else and_then (getType_of ty) (\<lambda>vty.
                case current_function t of
                  None \<Rightarrow> Inl NullDereference
                | Some f \<Rightarrow>
                    (let (newRegister, f') = newVirtualRegister vty name f
                     in Inr ((set_current_function f' t)
                               \<lparr>m_registers := (m_registers t)(r \<mapsto> newRegister)\<rparr>))))"

definition getRegister :: "nat \<Rightarrow> Translator \<Rightarrow> error + nat" where
  "getRegister r t =
     (case m_registers t r of
        None \<Rightarrow> Inl (RuntimeError (''PTX register '' @ ''r'' @ showNat r
                       @ '' used without declaration.''))
      | Some v \<Rightarrow> Inr v)"

definition getGlobal_checked :: "string \<Rightarrow> Translator \<Rightarrow> error + Variable" where
  "getGlobal_checked name t =
     (let global = getGlobal name (m_module t)
      in if global = length (module_globals (m_module t))
         then Inl (RuntimeError (''Global variable '' @ name @ '' used without declaration.''))
         else Inr (GlobalVariable global))"

definition getBasicBlock :: "string \<Rightarrow> Translator \<Rightarrow> error + Variable" where
  "getBasicBlock name t =
     (case m_blocks t name of
        None \<Rightarrow> Inl (RuntimeError (''Basic block '' @ name
                       @ '' was not declared in this function.''))
      | Some b \<Rightarrow> Inr (BasicBlockVariable b))"

fun getArgument_scan :: "string \<Rightarrow> string list \<Rightarrow> nat \<Rightarrow> nat option" where
  "getArgument_scan name [] n = None"
| "getArgument_scan name (x # xs) n =
     (if x = name then Some n else getArgument_scan name xs (Suc n))"

definition getArgument :: "string \<Rightarrow> Translator \<Rightarrow> error + nat" where
  "getArgument name t =
     (case current_function t of
        None \<Rightarrow> Inl NullDereference
      | Some f \<Rightarrow>
          (case getArgument_scan name (function_arguments f) 0 of
             Some n \<Rightarrow> Inr n
           | None \<Rightarrow> Inl (RuntimeError (''Argument '' @ name
                          @ '' was not declared in this function.''))))"

text \<open>
  \<^verbatim>\<open>_getSpecialVirtualRegister(id, vectorIndex)\<close>. Both parameters are
  \<^verbatim>\<open>unsigned int\<close>; the callers pass enumerators, and the function compares \<^verbatim>\<open>id\<close>
  with enumerators and converts both back for their names, so the model takes the
  enumerators and computes the hash and the comparison with \<^verbatim>\<open>v1\<close> on their values.
\<close>

definition isScalarSpecial :: "SpecialRegister \<Rightarrow> bool" where
  "isScalarSpecial id' =
     (case id' of tid \<Rightarrow> False | ntid \<Rightarrow> False | ctaId \<Rightarrow> False | nctaId \<Rightarrow> False
      | smId \<Rightarrow> False | nsmId \<Rightarrow> False | gridId \<Rightarrow> False | _ \<Rightarrow> True)"

definition getSpecialVirtualRegister :: "SpecialRegister \<Rightarrow> VectorIndex \<Rightarrow> Translator
    \<Rightarrow> error + (nat \<times> Translator)" where
  "getSpecialVirtualRegister id' vectorIndex t =
     (let hash = push_bit 4 (SpecialRegister_value id') OR VectorIndex_value vectorIndex
      in case m_specialRegisters t hash of
           Some r \<Rightarrow> Inr (r, t)
         | None \<Rightarrow>
             (let isScalar = isScalarSpecial id';
                  name = (if VectorIndex_value vectorIndex \<noteq> v1 \<or> isScalar
                          then SpecialRegister_toString id'
                          else SpecialRegister_toString id' @ ''_''
                               @ VectorIndex_toString vectorIndex)
              in and_then (getType ''i32'') (\<lambda>ty.
                   case current_function t of
                     None \<Rightarrow> Inl NullDereference
                   | Some f \<Rightarrow>
                       (let (newRegister, f') = newVirtualRegister ty name f
                        in Inr (newRegister,
                                (set_current_function f' t)
                                  \<lparr>m_specialRegisters :=
                                     (m_specialRegisters t)(hash \<mapsto> newRegister)\<rparr>)))))"

definition getSpecialValueOperand :: "SpecialRegister \<Rightarrow> VectorIndex \<Rightarrow> Translator
    \<Rightarrow> error + (ptr \<times> Translator)" where
  "getSpecialValueOperand id' vIndex' t =
     and_then (getSpecialVirtualRegister id' vIndex' t)
       (\<lambda>(r, t'). Inr (new_in (RegisterOperand r) t'))"

text \<open>
  \<^verbatim>\<open>_newTemporaryRegister\<close> leaves the name of the register to the default argument of
  \<^verbatim>\<open>newVirtualRegister\<close>, declared in a header that is not among the sources: the
  parameter \<open>name\<close>.
\<close>

definition newTemporaryRegister :: "string \<Rightarrow> Translator \<Rightarrow> error + (nat \<times> Translator)" where
  "newTemporaryRegister name t =
     and_then (getType ''i64'') (\<lambda>ty.
       case current_function t of
         None \<Rightarrow> Inl NullDereference
       | Some f \<Rightarrow>
           (let (temp, f') = newVirtualRegister ty name f
            in Inr (temp, set_current_function f' t)))"

subsection \<open>Operands\<close>

text \<open>
  \<^verbatim>\<open>_newTranslatedOperand\<close>; \<open>ptxInstruction\<close> is the member \<^verbatim>\<open>_ptxInstruction\<close>, the
  instruction being translated, and \<open>tempName\<close> the default name of a temporary.
\<close>

definition newTranslatedOperand :: "string \<Rightarrow> PTXInstruction \<Rightarrow> PTXOperand \<Rightarrow> Translator
    \<Rightarrow> error + (ptr \<times> Translator)" where
  "newTranslatedOperand tempName ptxInstruction ptx t =
     (case addressMode ptx of
        Register \<Rightarrow>
          and_then (getRegister (reg ptx) t) (\<lambda>r. Inr (new_in (RegisterOperand r) t))
      | Indirect \<Rightarrow>
          and_then (getRegister (reg ptx) t)
            (\<lambda>r. Inr (new_in (IndirectOperand r (offset ptx)) t))
      | Immediate \<Rightarrow> Inr (new_in (ImmediateOperand (imm_uint ptx)) t)
      | Address \<Rightarrow>
          if addressSpace ptxInstruction = Param \<and> isArgument ptx
          then and_then (getArgument (operand_identifier ptx) t)
                 (\<lambda>n. Inr (new_in (ArgumentOperand n) t))
          else and_then (getGlobal_checked (operand_identifier ptx) t)
                 (\<lambda>g. Inr (new_in (AddressOperand g) t))
      | Label \<Rightarrow>
          and_then (getBasicBlock (operand_identifier ptx) t)
            (\<lambda>b. Inr (new_in (AddressOperand b) t))
      | Special \<Rightarrow> getSpecialValueOperand (special ptx) (vIndex ptx) t
      | BitBucket \<Rightarrow>
          and_then (newTemporaryRegister tempName t)
            (\<lambda>(r, t'). Inr (new_in (RegisterOperand r) t'))
      | _ \<Rightarrow> Inl (NoOperandTranslation ptx))"

fun translatePredicateCondition :: "PredicateCondition \<Rightarrow> PredicateModifier" where
  "translatePredicateCondition PT = PredicateTrue"
| "translatePredicateCondition nPT = PredicateFalse"
| "translatePredicateCondition Pred = StraightPredicate"
| "translatePredicateCondition InvPred = InversePredicate"

definition translatePredicateOperand :: "PTXOperand \<Rightarrow> Translator \<Rightarrow> error + (ptr \<times> Translator)" where
  "translatePredicateOperand ptx t =
     and_then
       (if condition ptx \<noteq> PT \<and> condition ptx \<noteq> nPT
        then and_then (getRegister (reg ptx) t) (\<lambda>r. Inr (Some r))
        else Inr None)
       (\<lambda>predicateRegister.
          Inr (new_in (PredicateOperand predicateRegister
                         (translatePredicateCondition (condition ptx))) t))"

subsection \<open>Instructions\<close>

text \<open>
  \<^verbatim>\<open>new ir::Ld\<close> and the like: the constructor of the class with its default arguments
  (no block; the default id is declared in a header that is not among the sources and is
  taken as 0). The result of \<^verbatim>\<open>newUnaryInstruction\<close> and \<^verbatim>\<open>newBinaryInstruction\<close> is
  a pointer to the new instruction, and \<open>None\<close> where the function returns 0.
\<close>

definition new_unary :: "Opcode \<Rightarrow> Instruction option" where
  "new_unary oc = Some (UnaryInstruction_new oc None 0)"

definition new_binary :: "Opcode \<Rightarrow> Instruction option" where
  "new_binary oc = Some (BinaryInstruction_new oc None 0)"

definition newUnaryInstruction :: "PTXInstruction \<Rightarrow> Instruction option" where
  "newUnaryInstruction ptx =
     (case ptx_opcode ptx of
        PTX_Ld \<Rightarrow> new_unary Ld
      | PTX_Ldu \<Rightarrow> new_unary Ld
      | PTX_Mov \<Rightarrow> new_unary Bitcast
      | PTX_Cvt \<Rightarrow>
          if isFloat (dataType (ptx_d ptx))
          then (if isFloat (dataType (ptx_a ptx))
                then (if dataType (ptx_d ptx) = f32
                      then (if dataType (ptx_a ptx) = f32 then new_unary Bitcast
                            else new_unary Fptrunc)
                      else (if dataType (ptx_a ptx) = f32 then new_unary Fpext
                            else new_unary Bitcast))
                else if isSigned (dataType (ptx_a ptx)) then new_unary Sitofp
                else new_unary Uitofp)
          else if isSigned (dataType (ptx_d ptx))
          then (if isFloat (dataType (ptx_a ptx)) then new_unary Fptosi
                else (if bytes (dataType (ptx_a ptx)) > bytes (dataType (ptx_d ptx))
                      then new_unary Trunc
                      else if bytes (dataType (ptx_d ptx)) = bytes (dataType (ptx_a ptx))
                      then new_unary Bitcast
                      else if isSigned (dataType (ptx_a ptx)) then new_unary Sext
                      else new_unary Zext))
          else (if isFloat (dataType (ptx_a ptx)) then new_unary Fptoui
                else (if bytes (dataType (ptx_a ptx)) > bytes (dataType (ptx_d ptx))
                      then new_unary Trunc
                      else if bytes (dataType (ptx_d ptx)) = bytes (dataType (ptx_a ptx))
                      then new_unary Bitcast
                      else new_unary Zext))
      | _ \<Rightarrow> None)"

definition isSimpleUnaryInstruction :: "PTXInstruction \<Rightarrow> bool" where
  "isSimpleUnaryInstruction ptx =
     (case ptx_opcode ptx of
        PTX_Ld \<Rightarrow> True
      | PTX_Ldu \<Rightarrow> True
      | PTX_Mov \<Rightarrow> True
      | PTX_St \<Rightarrow> True
      | PTX_Cvt \<Rightarrow> (if modifier ptx = Modifier_invalid then True else False)
      | _ \<Rightarrow> False)"

text \<open>
  A member call \<^verbatim>\<open>vir->f(...)\<close>: through a null pointer it is undefined; \<open>f\<close> is one
  of the mutators of the instruction model.
\<close>

definition call :: "Instruction option \<Rightarrow> (Instruction \<Rightarrow> Instruction option) \<Rightarrow> error + Instruction option" where
  "call vir f =
     (case vir of
        None \<Rightarrow> Inl NullDereference
      | Some i \<Rightarrow> (case f i of None \<Rightarrow> Inl OutOfRange | Some i' \<Rightarrow> Inr (Some i')))"

text \<open>\<^verbatim>\<open>_block->push_back(vir)\<close>.\<close>

definition block_push_back :: "Instruction option \<Rightarrow> Translator \<Rightarrow> error + Translator" where
  "block_push_back vir t =
     (case current_function t of
        None \<Rightarrow> Inl NullDereference
      | Some f \<Rightarrow>
          if basic_blocks f = [] then Inl NullDereference
          else (case vir of
                  None \<Rightarrow> Inl NullDereference
                | Some i \<Rightarrow>
                    Inr (set_current_function
                           (f\<lparr>basic_blocks := butlast (basic_blocks f)
                                 @ [push_back i (last (basic_blocks f))]\<rparr>) t)))"

text \<open>
  \<^verbatim>\<open>_translateSimpleUnaryInstruction\<close> and \<^verbatim>\<open>_translateSimpleBinaryInstruction\<close>:
  the result says whether the instruction was translated. The argument of each setter is
  evaluated before the setter is called.
\<close>

definition translateSimpleUnaryInstruction :: "string \<Rightarrow> PTXInstruction \<Rightarrow> Translator
    \<Rightarrow> error + (bool \<times> Translator)" where
  "translateSimpleUnaryInstruction tempName ptx t =
     (if \<not> isSimpleUnaryInstruction ptx then Inr (False, t)
      else
        (let vir = newUnaryInstruction ptx
         in and_then (translatePredicateOperand (ptx_pg ptx) t) (\<lambda>(pg, t1).
            and_then (call vir (setGuard pg)) (\<lambda>vir1.
            and_then (newTranslatedOperand tempName ptx (ptx_d ptx) t1) (\<lambda>(pd, t2).
            and_then (call vir1 (setD pd)) (\<lambda>vir2.
            and_then (newTranslatedOperand tempName ptx (ptx_a ptx) t2) (\<lambda>(pa, t3).
            and_then (call vir2 (setA pa)) (\<lambda>vir3.
            and_then (block_push_back vir3 t3) (\<lambda>t4.
            Inr (True, t4))))))))))"

definition isSimpleBinaryInstruction :: "PTXInstruction \<Rightarrow> bool" where
  "isSimpleBinaryInstruction ptx =
     (case ptx_opcode ptx of
        PTX_Add \<Rightarrow> True
      | PTX_And \<Rightarrow> True
      | PTX_Div \<Rightarrow> True
      | PTX_Mul \<Rightarrow> True
      | PTX_Not \<Rightarrow> True
      | PTX_Or \<Rightarrow> True
      | PTX_Rem \<Rightarrow> True
      | PTX_Shl \<Rightarrow> True
      | PTX_Sub \<Rightarrow> True
      | PTX_Xor \<Rightarrow> True
      | _ \<Rightarrow> False)"

definition newBinaryInstruction :: "PTXInstruction \<Rightarrow> Instruction option" where
  "newBinaryInstruction ptx =
     (case ptx_opcode ptx of
        PTX_Add \<Rightarrow> new_binary Add
      | PTX_And \<Rightarrow> new_binary And
      | PTX_Div \<Rightarrow>
          if isFloat (ptx_type ptx) then new_binary Fdiv
          else (if isSigned (ptx_type ptx) then new_binary Sdiv else new_binary Udiv)
      | PTX_Mul \<Rightarrow>
          if isFloat (ptx_type ptx) then new_binary Fmul else new_binary Mul
      | PTX_Or \<Rightarrow> new_binary Or
      | PTX_Rem \<Rightarrow>
          if isFloat (ptx_type ptx) then new_binary Frem
          else (if isSigned (ptx_type ptx) then new_binary Srem else new_binary Urem)
      | PTX_Shl \<Rightarrow> new_binary Shl
      | PTX_Sub \<Rightarrow> new_binary Sub
      | PTX_Xor \<Rightarrow> new_binary Xor
      | _ \<Rightarrow> None)"

definition translateSimpleBinaryInstruction :: "string \<Rightarrow> PTXInstruction \<Rightarrow> Translator
    \<Rightarrow> error + (bool \<times> Translator)" where
  "translateSimpleBinaryInstruction tempName ptx t =
     (if \<not> isSimpleBinaryInstruction ptx then Inr (False, t)
      else
        (let vir = newBinaryInstruction ptx
         in and_then (translatePredicateOperand (ptx_pg ptx) t) (\<lambda>(pg, t1).
            and_then (call vir (setGuard pg)) (\<lambda>vir1.
            and_then (newTranslatedOperand tempName ptx (ptx_d ptx) t1) (\<lambda>(pd, t2).
            and_then (call vir1 (setD pd)) (\<lambda>vir2.
            and_then (newTranslatedOperand tempName ptx (ptx_a ptx) t2) (\<lambda>(pa, t3).
            and_then (call vir2 (setA pa)) (\<lambda>vir3.
            and_then (newTranslatedOperand tempName ptx (ptx_b ptx) t3) (\<lambda>(pb, t4).
            and_then (call vir3 (setB pb)) (\<lambda>vir4.
            and_then (block_push_back vir4 t4) (\<lambda>t5.
            Inr (True, t5))))))))))))"

definition translateComplexInstruction :: "PTXInstruction \<Rightarrow> bool" where
  "translateComplexInstruction ptx = False"

text \<open>
  \<^verbatim>\<open>_translateInstruction\<close>: the three translations in their order, and the failed
  assertion when none of them translated the instruction.
\<close>

definition translateInstruction :: "string \<Rightarrow> PTXInstruction \<Rightarrow> Translator \<Rightarrow> error + Translator" where
  "translateInstruction tempName ptx t =
     (if translateComplexInstruction ptx then Inr t
      else and_then (translateSimpleBinaryInstruction tempName ptx t) (\<lambda>(done_binary, t1).
             if done_binary then Inr t1
             else and_then (translateSimpleUnaryInstruction tempName ptx t1) (\<lambda>(done_unary, t2).
                    if done_unary then Inr t2
                    else Inl (NoInstructionTranslation ptx))))"

subsection \<open>Blocks, kernels, globals and modules\<close>

fun translateInstructions :: "string \<Rightarrow> PTXInstruction list \<Rightarrow> Translator \<Rightarrow> error + Translator" where
  "translateInstructions tempName [] t = Inr t"
| "translateInstructions tempName (ptx # rest) t =
     and_then (translateInstruction tempName ptx t) (translateInstructions tempName rest)"

definition translateBasicBlock :: "string \<Rightarrow> PTXBasicBlock \<Rightarrow> Translator \<Rightarrow> error + Translator" where
  "translateBasicBlock tempName basicBlock t =
     (case current_function t of
        None \<Rightarrow> Inl NullDereference
      | Some f \<Rightarrow>
          translateInstructions tempName (ptx_instructions basicBlock)
            (set_current_function (newBasicBlock (label basicBlock) f) t))"

fun translateRegisterValues :: "(nat \<times> PTXDataType) list \<Rightarrow> Translator \<Rightarrow> error + Translator" where
  "translateRegisterValues [] t = Inr t"
| "translateRegisterValues ((r, ty) # rest) t =
     and_then (translateRegisterValue r ty t) (translateRegisterValues rest)"

text \<open>
  Each of the two loops of \<^verbatim>\<open>_translateKernel\<close> over the executable sequence: the
  entry and the exit block are skipped, and \<^verbatim>\<open>_translateBasicBlock\<close> is called on
  every other block. The two loops have the same body.
\<close>

fun translateSequence :: "string \<Rightarrow> PTXKernel \<Rightarrow> PTXBasicBlock list \<Rightarrow> Translator
    \<Rightarrow> error + Translator" where
  "translateSequence tempName ptxKernel [] t = Inr t"
| "translateSequence tempName ptxKernel (b # rest) t =
     (if block_id b = entry_block ptxKernel then translateSequence tempName ptxKernel rest t
      else if block_id b = exit_block ptxKernel then translateSequence tempName ptxKernel rest t
      else and_then (translateBasicBlock tempName b t)
             (translateSequence tempName ptxKernel rest))"

definition translateKernel :: "string \<Rightarrow> PTXKernel \<Rightarrow> Translator \<Rightarrow> error + Translator" where
  "translateKernel tempName ptxKernel t =
     (let t1 = t\<lparr>m_module :=
                   newFunction (kernel_name ptxKernel)
                     (translateLinkingDirective (linkingDirective ptxKernel)) (m_module t)\<rparr>
      in and_then (translateRegisterValues (referencedRegisters ptxKernel) t1) (\<lambda>t2.
           (let sequence = executable_sequence ptxKernel
            in and_then (translateSequence tempName ptxKernel sequence t2)
                 (translateSequence tempName ptxKernel sequence))))"

definition translateGlobal :: "PTXGlobal \<Rightarrow> Translator \<Rightarrow> error + Translator" where
  "translateGlobal global t =
     and_then (getType_of (global_type global)) (\<lambda>ty.
       (let t1 = t\<lparr>m_module :=
                     newGlobal (global_name global) ty
                       (translateLinkage (attribute global)) (m_module t)\<rparr>
        in if initializedBytes global \<noteq> 0 then Inl NotImplemented else Inr t1))"

fun translateGlobals :: "PTXGlobal list \<Rightarrow> Translator \<Rightarrow> error + Translator" where
  "translateGlobals [] t = Inr t"
| "translateGlobals (g # rest) t = and_then (translateGlobal g t) (translateGlobals rest)"

fun translateKernels :: "string \<Rightarrow> PTXKernel list \<Rightarrow> Translator \<Rightarrow> error + Translator" where
  "translateKernels tempName [] t = Inr t"
| "translateKernels tempName (k # rest) t =
     and_then (translateKernel tempName k t) (translateKernels tempName rest)"

text \<open>
  \<^verbatim>\<open>translate\<close>: a new module of the compiler, named by the path of the source module,
  then the globals, then the kernels. The maps of the translator are not cleared.
\<close>

definition translate :: "string \<Rightarrow> PTXModule \<Rightarrow> Translator \<Rightarrow> error + Translator" where
  "translate tempName m t =
     (let t0 = t\<lparr>m_module := \<lparr>name_of_module = path m, module_functions = [],
                               module_globals = []\<rparr>\<rparr>
      in and_then (translateGlobals (ptx_globals m) t0) (translateKernels tempName (kernels m)))"

section \<open>The tables of the specification\<close>

text \<open>
  The class and the bit width of the source types the conversion table is about: the 8,
  16, 32 and 64-bit signed and unsigned integers and the 32 and 64-bit floats.
\<close>

datatype TypeClass = FloatClass | SignedInt | UnsignedInt

definition table_types :: "PTXDataType list" where
  "table_types = [s8, s16, s32, s64, u8, u16, u32, u64, f32, f64]"

fun typeClass :: "PTXDataType \<Rightarrow> TypeClass" where
  "typeClass f32 = FloatClass"
| "typeClass f64 = FloatClass"
| "typeClass s8 = SignedInt"
| "typeClass s16 = SignedInt"
| "typeClass s32 = SignedInt"
| "typeClass s64 = SignedInt"
| "typeClass _ = UnsignedInt"

fun bits :: "PTXDataType \<Rightarrow> nat" where
  "bits s8 = 8" | "bits u8 = 8"
| "bits s16 = 16" | "bits u16 = 16"
| "bits s32 = 32" | "bits u32 = 32" | "bits f32 = 32"
| "bits s64 = 64" | "bits u64 = 64" | "bits f64 = 64"
| "bits _ = 0"

text \<open>
  The conversion decision table as the specification words it, row by row: the class and
  width of the destination, then of the source.
\<close>

fun conversion_table :: "TypeClass \<Rightarrow> nat \<Rightarrow> TypeClass \<Rightarrow> nat \<Rightarrow> Opcode" where
  "conversion_table FloatClass dw FloatClass sw =
     (if sw = dw then Bitcast else if sw < dw then Fpext else Fptrunc)"
| "conversion_table FloatClass dw SignedInt sw = Sitofp"
| "conversion_table FloatClass dw UnsignedInt sw = Uitofp"
| "conversion_table SignedInt dw FloatClass sw = Fptosi"
| "conversion_table SignedInt dw SignedInt sw =
     (if dw < sw then Trunc else if sw = dw then Bitcast else Sext)"
| "conversion_table SignedInt dw UnsignedInt sw =
     (if dw < sw then Trunc else if sw = dw then Bitcast else Zext)"
| "conversion_table UnsignedInt dw FloatClass sw = Fptoui"
| "conversion_table UnsignedInt dw SignedInt sw =
     (if dw < sw then Trunc else if sw = dw then Bitcast else Zext)"
| "conversion_table UnsignedInt dw UnsignedInt sw =
     (if dw < sw then Trunc else if sw = dw then Bitcast else Zext)"

section \<open>Inputs for the closed theorems\<close>

text \<open>A source operand and a source instruction with every member at a fixed value.\<close>

definition PTXOperand_init :: PTXOperand where
  "PTXOperand_init =
     \<lparr>addressMode = Invalid, dataType = TypeSpecifier_invalid, reg = 0, offset = 0,
      imm_uint = 0, operand_identifier = [], isArgument = False, special = tid,
      vIndex = iAll, condition = PT\<rparr>"

definition PTXInstruction_init :: PTXInstruction where
  "PTXInstruction_init =
     \<lparr>ptx_opcode = PTX_Other 0, modifier = Modifier_invalid,
      ptx_type = TypeSpecifier_invalid, addressSpace = AddressSpace_other,
      ptx_pg = PTXOperand_init, ptx_d = PTXOperand_init, ptx_a = PTXOperand_init,
      ptx_b = PTXOperand_init\<rparr>"

text \<open>\<^verbatim>\<open>cvt.f64.f32 %r2, %r1\<close>, \<^verbatim>\<open>add.s32 %r1, 1, 2\<close> and \<^verbatim>\<open>not.b32 %r1, %r1\<close>.\<close>

definition cvt_f64_f32 :: PTXInstruction where
  "cvt_f64_f32 =
     PTXInstruction_init
       \<lparr>ptx_opcode := PTX_Cvt, ptx_type := f64,
        ptx_d := PTXOperand_init\<lparr>addressMode := Register, dataType := f64, reg := 2\<rparr>,
        ptx_a := PTXOperand_init\<lparr>addressMode := Register, dataType := f32, reg := 1\<rparr>\<rparr>"

definition add_s32 :: PTXInstruction where
  "add_s32 =
     PTXInstruction_init
       \<lparr>ptx_opcode := PTX_Add, ptx_type := s32,
        ptx_d := PTXOperand_init\<lparr>addressMode := Register, dataType := s32, reg := 1\<rparr>,
        ptx_a := PTXOperand_init\<lparr>addressMode := Immediate, dataType := s32, imm_uint := 1\<rparr>,
        ptx_b := PTXOperand_init\<lparr>addressMode := Immediate, dataType := s32, imm_uint := 2\<rparr>\<rparr>"

definition not_b32 :: PTXInstruction where
  "not_b32 =
     PTXInstruction_init
       \<lparr>ptx_opcode := PTX_Not, ptx_type := b32,
        ptx_d := PTXOperand_init\<lparr>addressMode := Register, dataType := b32, reg := 1\<rparr>,
        ptx_a := PTXOperand_init\<lparr>addressMode := Register, dataType := b32, reg := 1\<rparr>\<rparr>"

text \<open>
  A kernel that references the register 1 and whose executable sequence is the entry
  block, one block \<^verbatim>\<open>BB\<close> holding \<^verbatim>\<open>add.s32 %r1, 1, 2\<close>, and the exit block.
\<close>

definition one_block_kernel :: PTXKernel where
  "one_block_kernel =
     \<lparr>kernel_name = ''k'', linkingDirective = Prototype_Visible,
      referencedRegisters = [(1, s32)],
      executable_sequence =
        [\<lparr>block_id = 0, label = ''entry'', ptx_instructions = []\<rparr>,
         \<lparr>block_id = 1, label = ''BB'', ptx_instructions = [add_s32]\<rparr>,
         \<lparr>block_id = 2, label = ''exit'', ptx_instructions = []\<rparr>],
      entry_block = 0, exit_block = 2\<rparr>"

text \<open>The translator at the start of a kernel \<^verbatim>\<open>k\<close>, before any register is declared.\<close>

definition in_kernel :: Translator where
  "in_kernel =
     Translator_new\<lparr>m_module := newFunction ''k'' PrivateLinkage (m_module Translator_new)\<rparr>"

text \<open>
  A Phi with one source (the operand at address 1, from block 7), a load whose three
  slots hold the operands at the addresses 0, 1 and 2, and a store of three operands.
\<close>

definition phi_one_source :: Instruction where
  "phi_one_source =
     \<lparr>opcode = Phi, guard = None, block = None, instruction_id = 0,
      reads = [None, Some 1], writes = [None],
      view = PhiFields None [Some 1] [Some 7]\<rparr>"

definition psi_one_source :: Instruction where
  "psi_one_source =
     \<lparr>opcode = Psi, guard = None, block = None, instruction_id = 0,
      reads = [None, Some 1], writes = [None],
      view = PsiFields None [Some 1] [Some 7]\<rparr>"


definition three_operands :: heap where
  "three_operands =
     [PredicateOperand None PredicateTrue, RegisterOperand 1, IndirectOperand 0 0]"

text \<open>
  One choice of the two functions \<^verbatim>\<open>toString\<close> takes as parameters: a guard is always
  true when its modifier says so, and an operand is printed by its class and number.
\<close>

definition always_true :: "Operand \<Rightarrow> bool" where
  "always_true v = (case v of PredicateOperand r m \<Rightarrow> m = PredicateTrue | _ \<Rightarrow> False)"

definition operand_text :: "Operand \<Rightarrow> string" where
  "operand_text v =
     (case v of
        RegisterOperand n \<Rightarrow> ''r'' @ showNat n
      | IndirectOperand n k \<Rightarrow> ''[r'' @ showNat n @ '']''
      | ImmediateOperand w \<Rightarrow> showNat (unat w)
      | ArgumentOperand n \<Rightarrow> ''arg'' @ showNat n
      | AddressOperand x \<Rightarrow> ''address''
      | PredicateOperand r m \<Rightarrow> ''p'')"

text \<open>
  A Psi with a guard (address 0), a destination (address 1) and one source (address 2)
  selected by the predicate operand at address 3, and the store with these four
  operands.
\<close>

definition psi_populated :: Instruction where
  "psi_populated =
     \<lparr>opcode = Psi, guard = Some 0, block = None, instruction_id = 0,
      reads = [Some 0, Some 2], writes = [Some 1],
      view = PsiFields (Some 1) [Some 2] [Some 3]\<rparr>"

definition four_operands :: heap where
  "four_operands =
     [PredicateOperand None PredicateTrue, RegisterOperand 1, RegisterOperand 2,
      PredicateOperand (Some 0) StraightPredicate]"

text \<open>
  A second kernel \<^verbatim>\<open>k2\<close> with the same block as the first, once declaring no register
  at all and once declaring register 1 as the first kernel does; and the modules that
  hold the second kernel alone, after the first kernel, and both kernels with their
  declarations.
\<close>

definition undeclared_use_kernel :: PTXKernel where
  "undeclared_use_kernel = one_block_kernel\<lparr>kernel_name := ''k2'', referencedRegisters := []\<rparr>"

definition second_kernel_alone :: PTXModule where
  "second_kernel_alone = \<lparr>path = ''m'', ptx_globals = [], kernels = [undeclared_use_kernel]\<rparr>"

definition second_kernel_after_first :: PTXModule where
  "second_kernel_after_first =
     \<lparr>path = ''m'', ptx_globals = [], kernels = [one_block_kernel, undeclared_use_kernel]\<rparr>"

definition two_kernels_declaring_r1 :: PTXModule where
  "two_kernels_declaring_r1 =
     \<lparr>path = ''m'', ptx_globals = [],
      kernels = [one_block_kernel, one_block_kernel\<lparr>kernel_name := ''k2''\<rparr>]\<rparr>"

section \<open>Properties of the instruction model\<close>

subsection \<open>Copies of operand lists\<close>

lemma cloneOperands_length:
  "cloneOperands h ps = Some (h', qs) \<Longrightarrow> length qs = length ps"
proof (induction ps arbitrary: h h' qs)
  case Nil
  then show ?case by simp
next
  case (Cons p ps)
  show ?case
  proof (cases p)
    case None
    with Cons show ?thesis by (auto split: option.splits)
  next
    case (Some n)
    with Cons show ?thesis by (auto split: option.splits if_splits)
  qed
qed

text \<open>
  Where every entry points into the store, the copy appends the contents of the entries
  to the store, in order, and the new entries are the new addresses.
\<close>

lemma cloneOperands_valid:
  "list_all (\<lambda>p. case p of None \<Rightarrow> False | Some n \<Rightarrow> n < length h) ps \<Longrightarrow>
   cloneOperands h ps =
     Some (h @ map (\<lambda>p. h ! the p) ps, map Some [length h ..< length h + length ps])"
proof (induction ps arbitrary: h)
  case Nil
  then show ?case by simp
next
  case (Cons p ps)
  then obtain n where p: "p = Some n" and n: "n < length h"
    by (cases p) auto
  let ?h = "h @ [h ! n]"
  from Cons.prems have all: "list_all (\<lambda>p. case p of None \<Rightarrow> False | Some n \<Rightarrow> n < length h) ps"
    by simp
  then have "list_all (\<lambda>p. case p of None \<Rightarrow> False | Some n \<Rightarrow> n < length ?h) ps"
    by (auto simp: list_all_iff split: option.splits)
  from Cons.IH [OF this]
  have step: "cloneOperands ?h ps =
     Some (?h @ map (\<lambda>p. ?h ! the p) ps, map Some [length ?h ..< length ?h + length ps])" .
  have same: "map (\<lambda>p. ?h ! the p) ps = map (\<lambda>p. h ! the p) ps"
    using all by (auto simp: list_all_iff nth_append split: option.splits)
  have upt: "[length h ..< length h + length (p # ps)]
      = length h # [length ?h ..< length ?h + length ps]"
    by (subst upt_rec) simp
  show ?case
    unfolding p using n step same upt by simp
qed

lemma Instruction_copy_guard:
  "Instruction_copy h i = Some (h', c) \<Longrightarrow> at (reads c) 0 = Some (guard c)"
  by (auto simp: Instruction_copy_def split: option.splits)

lemma Instruction_copy_lengths:
  "Instruction_copy h i = Some (h', c) \<Longrightarrow>
   length (reads c) = length (reads i) \<and> length (writes c) = length (writes i)"
  by (auto simp: Instruction_copy_def cloneOperands_length split: option.splits)

lemma Instruction_copy_valid:
  assumes v: "list_all (valid_ptr h) (reads i @ writes i)" and r: "reads i \<noteq> []"
  shows "Instruction_copy h i =
    Some (h @ map (\<lambda>p. h ! the p) (reads i) @ map (\<lambda>p. h ! the p) (writes i),
          \<lparr>opcode = opcode i, guard = Some (length h), block = block i,
           instruction_id = instruction_id i,
           reads = map Some [length h ..< length h + length (reads i)],
           writes = map Some [length h + length (reads i)
                              ..< length h + length (reads i) + length (writes i)],
           view = PlainFields\<rparr>)"
proof -
  let ?h1 = "h @ map (\<lambda>p. h ! the p) (reads i)"
  from v have vr: "list_all (\<lambda>p. case p of None \<Rightarrow> False | Some n \<Rightarrow> n < length h) (reads i)"
    and vw: "list_all (\<lambda>p. case p of None \<Rightarrow> False | Some n \<Rightarrow> n < length h) (writes i)"
    by (auto simp: list_all_iff valid_ptr_def)
  from vw have vw1: "list_all (\<lambda>p. case p of None \<Rightarrow> False | Some n \<Rightarrow> n < length ?h1) (writes i)"
    by (auto simp: list_all_iff split: option.splits)
  have same: "map (\<lambda>p. ?h1 ! the p) (writes i) = map (\<lambda>p. h ! the p) (writes i)"
    using vw by (auto simp: list_all_iff nth_append split: option.splits)
  have g: "at (map Some [length h ..< length h + length (reads i)]) 0 = Some (Some (length h))"
    using r by (simp add: at_def)
  show ?thesis
    unfolding Instruction_copy_def
    using cloneOperands_valid [OF vr] cloneOperands_valid [OF vw1] same g
    by simp
qed

subsection \<open>Invariants of the lifetime\<close>

lemma created_guard:
  "Instruction_create o' b n = Some i \<Longrightarrow> at (reads i) 0 = Some (guard i)"
  by (cases o')
     (auto simp: at_def Instruction_new_def UnaryInstruction_new_def BinaryInstruction_new_def
        Atom_new_def Bra_new_def Call_new_def St_new_def Phi_new_def Psi_new_def Let_def)

lemma setD_guard:
  "setD p i = Some i' \<Longrightarrow> at (reads i) 0 = Some (guard i) \<Longrightarrow> at (reads i') 0 = Some (guard i')"
  by (cases "view i") (auto simp: setD_def at_def split: if_splits)

lemma setA_guard:
  "setA p i = Some i' \<Longrightarrow> at (reads i) 0 = Some (guard i) \<Longrightarrow> at (reads i') 0 = Some (guard i')"
  by (cases "view i") (auto simp: setA_def at_def split: if_splits)

lemma setB_guard:
  "setB p i = Some i' \<Longrightarrow> at (reads i) 0 = Some (guard i) \<Longrightarrow> at (reads i') 0 = Some (guard i')"
  by (cases "view i") (auto simp: setB_def at_def split: if_splits)

lemma setTarget_guard:
  "setTarget p i = Some i' \<Longrightarrow> at (reads i) 0 = Some (guard i) \<Longrightarrow> at (reads i') 0 = Some (guard i')"
  by (cases "view i") (auto simp: setTarget_def at_def split: if_splits)

lemma lifetime_guard: "lifetime i \<Longrightarrow> at (reads i) 0 = Some (guard i)"
proof (induction rule: lifetime.induct)
  case (created o' b n i)
  then show ?case by (rule created_guard)
next
  case (after_setGuard i p i')
  then show ?case by (auto simp: setGuard_def at_def split: if_splits)
next
  case (after_setD i p i')
  then show ?case using setD_guard by blast
next
  case (after_setA i p i')
  then show ?case using setA_guard by blast
next
  case (after_setB i p i')
  then show ?case using setB_guard by blast
next
  case (after_setTarget i p i')
  then show ?case using setTarget_guard by blast
next
  case (after_addReturn i p i')
  then show ?case by (auto simp: addReturn_def at_def split: Fields.splits)
next
  case (after_addArgument i p i')
  then show ?case by (auto simp: addArgument_def at_def nth_append split: Fields.splits if_splits)
next
  case (after_Phi_addSource i p b i')
  then show ?case by (auto simp: Phi_addSource_def at_def nth_append split: Fields.splits if_splits)
next
  case (after_Phi_removeSource i b i')
  then show ?case
    by (auto simp: Phi_removeSource_def at_def split: Fields.splits list.splits option.splits)
next
  case (after_Psi_addSource i q p i')
  then show ?case by (auto simp: Psi_addSource_def at_def nth_append split: Fields.splits if_splits)
next
  case (after_Psi_removeSource i q i')
  then show ?case
    by (auto simp: Psi_removeSource_def at_def split: Fields.splits list.splits option.splits)
next
  case (cloned i h h' i')
  then obtain c f where c: "Instruction_copy h i = Some (h', c)" and i': "i' = c\<lparr>view := f\<rparr>"
    by (auto simp: clone_def split: option.splits)
  from Instruction_copy_guard [OF c] i' show ?case by simp
next
  case (assigned i h h' i')
  then obtain c f where c: "Instruction_copy h i = Some (h', c)" and i': "i' = c\<lparr>view := f\<rparr>"
    by (auto simp: assign_def split: option.splits)
  from Instruction_copy_guard [OF c] i' show ?case by simp
qed

lemma copy_view_ok:
  "view_ok f (length rs) (length ws) \<Longrightarrow>
   \<exists>f'. copy_view f rs ws = Some f' \<and> view_ok f' (length rs) (length ws)"
  by (cases f) (auto simp: at_def vector_back_def slice_def)

lemma assign_view_ok:
  "view_ok f (length rs) (length ws) \<Longrightarrow>
   \<exists>f'. assign_view f rs ws = Some f' \<and> view_ok f' (length rs) (length ws)"
  by (cases f) (auto simp: at_def vector_back_def slice_def)

lemma created_view_ok:
  "Instruction_create o' b n = Some i \<Longrightarrow> view_ok (view i) (length (reads i)) (length (writes i))"
  by (cases o')
     (auto simp: Instruction_new_def UnaryInstruction_new_def BinaryInstruction_new_def
        Atom_new_def Bra_new_def Call_new_def St_new_def Phi_new_def Psi_new_def Let_def)

lemma lifetime_view_ok:
  "lifetime i \<Longrightarrow> view_ok (view i) (length (reads i)) (length (writes i))"
proof (induction rule: lifetime.induct)
  case (created o' b n i)
  then show ?case by (rule created_view_ok)
next
  case (after_setGuard i p i')
  then show ?case by (auto simp: setGuard_def split: if_splits)
next
  case (after_setD i p i')
  then show ?case by (cases "view i") (auto simp: setD_def split: if_splits)
next
  case (after_setA i p i')
  then show ?case by (cases "view i") (auto simp: setA_def split: if_splits)
next
  case (after_setB i p i')
  then show ?case by (cases "view i") (auto simp: setB_def split: if_splits)
next
  case (after_setTarget i p i')
  then show ?case by (cases "view i") (auto simp: setTarget_def split: if_splits)
next
  case (after_addReturn i p i')
  then show ?case by (cases "view i") (auto simp: addReturn_def)
next
  case (after_addArgument i p i')
  then show ?case by (cases "view i") (auto simp: addArgument_def)
next
  case (after_Phi_addSource i p b i')
  then show ?case by (cases "view i") (auto simp: Phi_addSource_def)
next
  case (after_Phi_removeSource i b i')
  then show ?case
    by (cases "view i") (auto simp: Phi_removeSource_def split: list.splits option.splits)
next
  case (after_Psi_addSource i q p i')
  then show ?case by (cases "view i") (auto simp: Psi_addSource_def)
next
  case (after_Psi_removeSource i q i')
  then show ?case
    by (cases "view i") (auto simp: Psi_removeSource_def split: list.splits option.splits)
next
  case (cloned i h h' i')
  then obtain c f where c: "Instruction_copy h i = Some (h', c)"
    and f: "copy_view (view i) (reads c) (writes c) = Some f" and i': "i' = c\<lparr>view := f\<rparr>"
    by (auto simp: clone_def split: option.splits)
  from Instruction_copy_lengths [OF c] cloned.IH
  have "view_ok (view i) (length (reads c)) (length (writes c))" by simp
  from copy_view_ok [OF this] f i' show ?case by auto
next
  case (assigned i h h' i')
  then obtain c f where c: "Instruction_copy h i = Some (h', c)"
    and f: "assign_view (view i) (reads c) (writes c) = Some f" and i': "i' = c\<lparr>view := f\<rparr>"
    by (auto simp: assign_def split: option.splits)
  from Instruction_copy_lengths [OF c] assigned.IH
  have "view_ok (view i) (length (reads c)) (length (writes c))" by simp
  from assign_view_ok [OF this] f i' show ?case by auto
qed

subsection \<open>The example instructions are states of the lifetime\<close>


lemma psi_populated_lifetime: "lifetime psi_populated"
proof -
  have 0: "lifetime (Psi_new None 0)"
    by (rule lifetime.created [of Psi None 0]) simp
  have 1: "setGuard (Some 0) (Psi_new None 0)
      = Some (Psi_new None 0\<lparr>reads := [Some 0], guard := Some 0\<rparr>)"
    by (simp add: setGuard_def Psi_new_def Instruction_new_def)
  have 2: "setD (Some 1) (Psi_new None 0\<lparr>reads := [Some 0], guard := Some 0\<rparr>)
      = Some (Psi_new None 0\<lparr>reads := [Some 0], guard := Some 0,
                writes := [Some 1], view := PsiFields (Some 1) [] []\<rparr>)"
    by (simp add: setD_def Psi_new_def Instruction_new_def)
  have 3: "Psi_addSource (Some 3) (Some 2)
        (Psi_new None 0\<lparr>reads := [Some 0], guard := Some 0,
                writes := [Some 1], view := PsiFields (Some 1) [] []\<rparr>)
      = Some psi_populated"
    by (simp add: Psi_addSource_def Psi_new_def Instruction_new_def psi_populated_def)
  from lifetime.after_Psi_addSource
         [OF lifetime.after_setD [OF lifetime.after_setGuard [OF 0 1] 2] 3]
  show ?thesis .
qed

lemma phi_one_source_lifetime: "lifetime phi_one_source"
proof -
  have 0: "lifetime (Phi_new None 0)"
    by (rule lifetime.created [of Phi None 0]) simp
  have 1: "Phi_addSource (Some 1) (Some 7) (Phi_new None 0) = Some phi_one_source"
    by (simp add: Phi_addSource_def Phi_new_def Instruction_new_def phi_one_source_def)
  from lifetime.after_Phi_addSource [OF 0 1] show ?thesis .
qed

subsection \<open>The guard slot\<close>





subsection \<open>Parity of Phi and Psi\<close>

text \<open>
  C3. The claim fails on the code: the copy constructor and the assignment operator of
  Phi (and of Psi) push every entry of the copied \<^verbatim>\<open>reads\<close>, the guard slot included,
  onto \<^verbatim>\<open>sources\<close>. The Phi with one source satisfies the parity; its clone and the
  result of assigning from it have two reads, two sources and one block, and do not.
\<close>

theorem Phi_copy_breaks_parity:
  "lifetime phi_one_source \<and> parity phi_one_source
   \<and> map_option (view \<circ> snd) (clone [RegisterOperand 0, RegisterOperand 1] phi_one_source)
       = Some (PhiFields None [None, Some 2] [Some 7])
   \<and> map_option (reads \<circ> snd) (clone [RegisterOperand 0, RegisterOperand 1] phi_one_source)
       = Some [None, Some 2]
   \<and> map_option (parity \<circ> snd) (clone [RegisterOperand 0, RegisterOperand 1] phi_one_source)
       = Some False
   \<and> map_option (parity \<circ> snd) (assign [RegisterOperand 0, RegisterOperand 1] phi_one_source)
       = Some False"
proof -
  have "clone [RegisterOperand 0, RegisterOperand 1] phi_one_source =
     Some ([RegisterOperand 0, RegisterOperand 1, RegisterOperand 1],
           \<lparr>opcode = Phi, guard = None, block = None, instruction_id = 0,
            reads = [None, Some 2], writes = [None],
            view = PhiFields None [None, Some 2] [Some 7]\<rparr>)"
    by (simp add: phi_one_source_def clone_def Instruction_copy_def at_def vector_back_def)
  moreover have "assign [RegisterOperand 0, RegisterOperand 1] phi_one_source =
     Some ([RegisterOperand 0, RegisterOperand 1, RegisterOperand 1],
           \<lparr>opcode = Phi, guard = None, block = None, instruction_id = 0,
            reads = [None, Some 2], writes = [None],
            view = PhiFields None [None, Some 2] [Some 7]\<rparr>)"
    by (simp add: phi_one_source_def assign_def Instruction_copy_def at_def vector_back_def)
  moreover have "parity phi_one_source"
    by (simp add: phi_one_source_def parity_def)
  ultimately show ?thesis
    using phi_one_source_lifetime by (simp add: parity_def)
qed

subsection \<open>Adding and removing a source\<close>

lemma eraseFirst_append:
  "p \<notin> set bs \<Longrightarrow> length ss = length bs \<Longrightarrow> length rs = length bs \<Longrightarrow>
   eraseFirst p (bs @ [p]) (ss @ [s]) (rs @ [r]) = Some (bs, ss, rs)"
proof (induction bs arbitrary: ss rs)
  case Nil
  then show ?case by simp
next
  case (Cons b bs)
  then obtain s' ss' r' rs' where "ss = s' # ss'" "rs = r' # rs'"
    by (cases ss; cases rs) auto
  with Cons show ?case by auto
qed

text \<open>
  C7, as amended. For every Phi that satisfies the parity and whose blocks do not
  already hold the predecessor \<open>b\<close>, \<^verbatim>\<open>addSource(s, b)\<close> followed by
  \<^verbatim>\<open>removeSource(b)\<close> is defined and gives back the instruction as it was: the same
  reads, sources and blocks, and every other member. Likewise for a Psi whose predicates
  do not already hold the predicate \<open>q\<close>.
\<close>

theorem add_then_remove_restores:
  "(view i = PhiFields d ss bs \<and> parity i \<and> b \<notin> set bs \<longrightarrow>
      Option.bind (Phi_addSource s b i) (Phi_removeSource b) = Some i)
   \<and> (view i = PsiFields d ss ps \<and> parity i \<and> q \<notin> set ps \<longrightarrow>
      Option.bind (Psi_addSource q s i) (Psi_removeSource q) = Some i)"
proof (intro conjI impI)
  assume a: "view i = PhiFields d ss bs \<and> parity i \<and> b \<notin> set bs"
  then have len: "length (reads i) = Suc (length ss)" "length ss = length bs"
    by (auto simp: parity_def)
  then obtain g rs where r: "reads i = g # rs" "length rs = length bs"
    by (cases "reads i") auto
  from a have "eraseFirst b (bs @ [b]) (ss @ [s]) (rs @ [s]) = Some (bs, ss, rs)"
    using len r by (intro eraseFirst_append) auto
  moreover have "i\<lparr>reads := g # rs, view := PhiFields d ss bs\<rparr> = i"
    using a r by simp
  ultimately show "Option.bind (Phi_addSource s b i) (Phi_removeSource b) = Some i"
    using a r by (simp add: Phi_addSource_def Phi_removeSource_def)
next
  assume a: "view i = PsiFields d ss ps \<and> parity i \<and> q \<notin> set ps"
  then have len: "length (reads i) = Suc (length ss)" "length ss = length ps"
    by (auto simp: parity_def)
  then obtain g rs where r: "reads i = g # rs" "length rs = length ps"
    by (cases "reads i") auto
  from a have "eraseFirst q (ps @ [q]) (ss @ [s]) (rs @ [s]) = Some (ps, ss, rs)"
    using len r by (intro eraseFirst_append) auto
  moreover have "i\<lparr>reads := g # rs, view := PsiFields d ss ps\<rparr> = i"
    using a r by simp
  ultimately show "Option.bind (Psi_addSource q s i) (Psi_removeSource q) = Some i"
    using a r by (simp add: Psi_addSource_def Psi_removeSource_def)
qed

theorem add_then_remove_restores_witness:
  "view phi_one_source = PhiFields None [Some 1] [Some 7] \<and> parity phi_one_source
   \<and> Some 8 \<notin> set [Some (7::nat)]
   \<and> Option.bind (Phi_addSource (Some 2) (Some 8) phi_one_source) (Phi_removeSource (Some 8))
       = Some phi_one_source
   \<and> view psi_one_source = PsiFields None [Some 1] [Some 7] \<and> parity psi_one_source
   \<and> Option.bind (Psi_addSource (Some 8) (Some 2) psi_one_source) (Psi_removeSource (Some 8))
       = Some psi_one_source"
  using add_then_remove_restores [where i = phi_one_source and d = None and ss = "[Some 1]"
      and bs = "[Some 7]" and b = "Some 8" and s = "Some 2"]
    add_then_remove_restores [where i = psi_one_source and d = None and ss = "[Some 1]"
      and ps = "[Some 7]" and q = "Some 8" and s = "Some 2"]
  by (simp add: phi_one_source_def psi_one_source_def parity_def)

text \<open>
  The claim as stated fails where the predecessor is already among the blocks:
  \<^verbatim>\<open>removeSource\<close> erases the first entry for the block, not the one just added. The
  Phi with the source 1 from block 7, after \<^verbatim>\<open>addSource(2, 7)\<close> and
  \<^verbatim>\<open>removeSource(7)\<close>, holds the source 2.
\<close>

theorem add_then_remove_same_block_twice:
  "lifetime phi_one_source \<and> parity phi_one_source
   \<and> reads phi_one_source = [None, Some 1]
   \<and> Option.bind (Phi_addSource (Some 2) (Some 7) phi_one_source) (Phi_removeSource (Some 7))
       = Some (phi_one_source\<lparr>reads := [None, Some 2],
                               view := PhiFields None [Some 2] [Some 7]\<rparr>)
   \<and> Option.bind (Phi_addSource (Some 2) (Some 7) phi_one_source) (Phi_removeSource (Some 7))
       \<noteq> Some phi_one_source"
  using phi_one_source_lifetime
  by (simp add: phi_one_source_def parity_def Phi_addSource_def Phi_removeSource_def)

subsection \<open>Clone fidelity\<close>

lemma deref_valid: "valid_ptr h p \<Longrightarrow> deref h p = Some (h ! the p)"
  by (cases p) (auto simp: valid_ptr_def deref_def)

lemma writesToString_tail:
  "w0 \<notin> set ws \<Longrightarrow> list_all (valid_ptr h) ws \<Longrightarrow>
   writesToString ts h w0 ws = Some (commaJoin False (map (\<lambda>p. ts (h ! the p)) ws))"
  by (induction ws) (auto simp: deref_valid)

lemma writesToString_all:
  "distinct ws \<Longrightarrow> list_all (valid_ptr h) ws \<Longrightarrow>
   (case ws of [] \<Rightarrow> Some [] | w0 # _ \<Rightarrow> writesToString ts h w0 ws)
     = Some (commaJoin True (map (\<lambda>p. ts (h ! the p)) ws))"
  by (cases ws) (auto simp: deref_valid writesToString_tail)

lemma readsToString_tail:
  "r0 \<notin> set rs \<Longrightarrow> list_all (valid_ptr h) rs \<Longrightarrow>
   readsToString ts h r0 first rs = Some (commaJoin first (map (\<lambda>p. ts (h ! the p)) rs))"
  by (induction rs arbitrary: first) (auto simp: deref_valid)

text \<open>
  The text of an instruction whose slots hold distinct operands of the store: the
  rendering of the contents of its guard, its writes and its reads after the guard.
\<close>

lemma toString_rendering:
  assumes r: "reads i = g # rs" and g: "guard i = g"
    and d: "distinct (reads i @ writes i)" and v: "list_all (valid_ptr h) (reads i @ writes i)"
  shows "toString tr ts h i =
     Some (rendering tr ts (opcode i) (h ! the g)
             (map (\<lambda>p. h ! the p) (writes i)) (map (\<lambda>p. h ! the p) rs))"
proof -
  from r d have g_rs: "g \<notin> set rs" and dw: "distinct (writes i)" by auto
  from r v have vg: "valid_ptr h g" and vrs: "list_all (valid_ptr h) rs"
    and vws: "list_all (valid_ptr h) (writes i)" by auto
  have rd: "readsToString ts h g True (g # rs)
      = Some (commaJoin True (map (\<lambda>p. ts (h ! the p)) rs))"
    using readsToString_tail [OF g_rs vrs] by simp
  have len: "(1 < length (reads i)) = (rs \<noteq> [])" using r by (cases rs) auto
  show ?thesis
    unfolding toString_def rendering_def g
    using deref_valid [OF vg] writesToString_all [OF dw vws, of ts] rd len
    by (simp add: r comp_def)
qed

lemma map_nth_append_upt:
  "a + m \<le> length xs \<Longrightarrow>
   map (\<lambda>p. (h @ xs) ! the p) (map Some [length h + a ..< length h + a + m]) = take m (drop a xs)"
  by (rule nth_equalityI) (auto simp: nth_append)

text \<open>
  What the copy does get right, for every instruction (a state of the lifetime) whose
  read and write slots are populated and hold pairwise distinct operands:
  \<^verbatim>\<open>clone()\<close> is defined; the text of the clone equals the text of the original,
  whatever \<^verbatim>\<open>isAlwaysTrue\<close> and \<^verbatim>\<open>Operand::toString\<close> compute (\<open>tr\<close>, \<open>ts\<close>); the
  views of the clone are read from its own new lists; and overwriting the operand in any
  read or write slot of the clone changes that operand and leaves the operand in the
  same slot of the original as it was before the clone was made.
\<close>

lemma clone_reads_and_writes:
  assumes life: "lifetime i" and pop: "populated h i" and excl: "exclusive i"
  shows "\<exists>h' c. clone h i = Some (h', c)
     \<and> toString tr ts h i \<noteq> None
     \<and> toString tr ts h' c = toString tr ts h i
     \<and> copy_view (view i) (reads c) (writes c) = Some (view c)
     \<and> length (reads c) = length (reads i) \<and> length (writes c) = length (writes i)
     \<and> (\<forall>k<length (reads i). \<forall>v. \<exists>n. reads c ! k = Some n
            \<and> deref (h'[n := v]) (reads c ! k) = Some v
            \<and> deref (h'[n := v]) (reads i ! k) = deref h (reads i ! k))
     \<and> (\<forall>k<length (writes i). \<forall>v. \<exists>n. writes c ! k = Some n
            \<and> deref (h'[n := v]) (writes c ! k) = Some v
            \<and> deref (h'[n := v]) (writes i ! k) = deref h (writes i ! k))"
proof -
  let ?val = "\<lambda>p. h ! the p"
  let ?r = "length (reads i)" and ?w = "length (writes i)" and ?n = "length h"
  let ?h' = "h @ map ?val (reads i) @ map ?val (writes i)"
  let ?c0 = "\<lparr>opcode = opcode i, guard = Some ?n, block = block i,
           instruction_id = instruction_id i,
           reads = map Some [?n ..< ?n + ?r],
           writes = map Some [?n + ?r ..< ?n + ?r + ?w],
           view = PlainFields\<rparr>"
  from pop have v: "list_all (valid_ptr h) (reads i @ writes i)" by (simp add: populated_def)
  from excl have d: "distinct (reads i @ writes i)" by (simp add: exclusive_def)
  from lifetime_guard [OF life] obtain rs where r: "reads i = guard i # rs"
    by (cases "reads i") (auto simp: at_def split: if_splits)
  then have rne: "reads i \<noteq> []" by simp
  have copy: "Instruction_copy h i = Some (?h', ?c0)"
    by (rule Instruction_copy_valid [OF v rne])
  from lifetime_view_ok [OF life]
  have "view_ok (view i) (length (reads ?c0)) (length (writes ?c0))" by simp
  from copy_view_ok [OF this] obtain f where f: "copy_view (view i) (reads ?c0) (writes ?c0) = Some f"
    by blast
  let ?c = "?c0\<lparr>view := f\<rparr>"
  have cl: "clone h i = Some (?h', ?c)"
    unfolding clone_def using copy f by simp
  have orig: "toString tr ts h i =
     Some (rendering tr ts (opcode i) (h ! the (guard i)) (map ?val (writes i)) (map ?val rs))"
    by (rule toString_rendering [OF r refl d v])
  have rc: "reads ?c = Some ?n # map Some [Suc ?n ..< ?n + ?r]"
    using rne by (simp add: upt_rec [of ?n])
  have dc: "distinct (reads ?c @ writes ?c)"
    by (auto simp: distinct_map inj_on_def)
  have vc: "list_all (valid_ptr ?h') (reads ?c @ writes ?c)"
    by (auto simp: list_all_iff valid_ptr_def)
  have gv: "?h' ! ?n = h ! the (guard i)"
    using r by (simp add: nth_append)
  have wv: "map (\<lambda>p. ?h' ! the p) (writes ?c) = map ?val (writes i)"
    using map_nth_append_upt [of ?r ?w "map ?val (reads i) @ map ?val (writes i)" h] by simp
  have rv: "map (\<lambda>p. ?h' ! the p) (map Some [Suc ?n ..< ?n + ?r]) = map ?val rs"
    using map_nth_append_upt [of 1 "length rs" "map ?val (reads i) @ map ?val (writes i)" h] r
    by simp
  have "toString tr ts ?h' ?c =
     Some (rendering tr ts (opcode ?c) (?h' ! the (Some ?n))
       (map (\<lambda>p. ?h' ! the p) (writes ?c)) (map (\<lambda>p. ?h' ! the p) (map Some [Suc ?n ..< ?n + ?r])))"
    by (rule toString_rendering [OF rc _ dc vc]) simp
  with orig gv wv rv have same: "toString tr ts ?h' ?c = toString tr ts h i"
    by simp
  have reads_ind: "\<forall>k<?r. \<forall>v. \<exists>n. reads ?c ! k = Some n
            \<and> deref (?h'[n := v]) (reads ?c ! k) = Some v
            \<and> deref (?h'[n := v]) (reads i ! k) = deref h (reads i ! k)"
  proof (intro allI impI)
    fix k v assume k: "k < ?r"
    with v have "valid_ptr h (reads i ! k)" by (auto simp: list_all_iff)
    then obtain m where m: "reads i ! k = Some m" "m < ?n"
      by (cases "reads i ! k") (auto simp: valid_ptr_def)
    have "reads ?c ! k = Some (?n + k)" using k by simp
    moreover have "deref (?h'[?n + k := v]) (Some (?n + k)) = Some v"
      using k by (simp add: deref_def)
    moreover have "deref (?h'[?n + k := v]) (Some m) = deref h (Some m)"
      using m by (simp add: deref_def nth_append)
    ultimately show "\<exists>n. reads ?c ! k = Some n
            \<and> deref (?h'[n := v]) (reads ?c ! k) = Some v
            \<and> deref (?h'[n := v]) (reads i ! k) = deref h (reads i ! k)"
      using m by simp
  qed
  have writes_ind: "\<forall>k<?w. \<forall>v. \<exists>n. writes ?c ! k = Some n
            \<and> deref (?h'[n := v]) (writes ?c ! k) = Some v
            \<and> deref (?h'[n := v]) (writes i ! k) = deref h (writes i ! k)"
  proof (intro allI impI)
    fix k v assume k: "k < ?w"
    with v have "valid_ptr h (writes i ! k)" by (auto simp: list_all_iff)
    then obtain m where m: "writes i ! k = Some m" "m < ?n"
      by (cases "writes i ! k") (auto simp: valid_ptr_def)
    have "writes ?c ! k = Some (?n + ?r + k)" using k by simp
    moreover have "deref (?h'[?n + ?r + k := v]) (Some (?n + ?r + k)) = Some v"
      using k by (simp add: deref_def)
    moreover have "deref (?h'[?n + ?r + k := v]) (Some m) = deref h (Some m)"
      using m by (simp add: deref_def nth_append)
    ultimately show "\<exists>n. writes ?c ! k = Some n
            \<and> deref (?h'[n := v]) (writes ?c ! k) = Some v
            \<and> deref (?h'[n := v]) (writes i ! k) = deref h (writes i ! k)"
      using m by simp
  qed
  show ?thesis
    apply (rule exI [of _ ?h'], rule exI [of _ ?c])
    using cl orig same reads_ind writes_ind f by simp
qed

text \<open>
  C8. The claim fails on the code for the predicate operands of a Psi: the copy
  constructor copies the original's \<^verbatim>\<open>predicates\<close>, the pointers themselves, where it
  clones every read and write. The Psi below is a state of the lifetime with populated,
  pairwise distinct slots. Its clone prints the same text and has new operands in its
  reads and writes (addresses 4, 5 and 6), but its one predicate is the operand at
  address 3, the original's: overwriting that operand of the clone changes what the
  original's predicate points to. (The clone's \<^verbatim>\<open>sources\<close> also hold the guard slot,
  as shown above for the Phi.)
\<close>

theorem Psi_clone_shares_its_predicates:
  "lifetime psi_populated \<and> populated four_operands psi_populated \<and> exclusive psi_populated
   \<and> view psi_populated = PsiFields (Some 1) [Some 2] [Some 3]
   \<and> clone four_operands psi_populated
       = Some (four_operands @ [PredicateOperand None PredicateTrue, RegisterOperand 2,
                                RegisterOperand 1],
               \<lparr>opcode = Psi, guard = Some 4, block = None, instruction_id = 0,
                reads = [Some 4, Some 5], writes = [Some 6],
                view = PsiFields (Some 6) [Some 4, Some 5] [Some 3]\<rparr>)
   \<and> toString always_true operand_text four_operands psi_populated = Some ''Psi r1, r2''
   \<and> toString always_true operand_text
        (four_operands @ [PredicateOperand None PredicateTrue, RegisterOperand 2,
                          RegisterOperand 1])
        \<lparr>opcode = Psi, guard = Some 4, block = None, instruction_id = 0,
         reads = [Some 4, Some 5], writes = [Some 6],
         view = PsiFields (Some 6) [Some 4, Some 5] [Some 3]\<rparr>
       = Some ''Psi r1, r2''
   \<and> deref four_operands (Some 3) = Some (PredicateOperand (Some 0) StraightPredicate)
   \<and> deref ((four_operands @ [PredicateOperand None PredicateTrue, RegisterOperand 2,
                               RegisterOperand 1])
               [3 := PredicateOperand (Some 0) InversePredicate]) (Some 3)
       = Some (PredicateOperand (Some 0) InversePredicate)"
proof (intro conjI)
  show "lifetime psi_populated" by (rule psi_populated_lifetime)
  show "populated four_operands psi_populated"
    by (simp add: populated_def valid_ptr_def four_operands_def psi_populated_def)
  show "exclusive psi_populated"
    by (simp add: exclusive_def psi_populated_def)
  show "view psi_populated = PsiFields (Some 1) [Some 2] [Some 3]"
    by (simp add: psi_populated_def)
  show "clone four_operands psi_populated
       = Some (four_operands @ [PredicateOperand None PredicateTrue, RegisterOperand 2,
                                RegisterOperand 1],
               \<lparr>opcode = Psi, guard = Some 4, block = None, instruction_id = 0,
                reads = [Some 4, Some 5], writes = [Some 6],
                view = PsiFields (Some 6) [Some 4, Some 5] [Some 3]\<rparr>)"
    by (simp add: clone_def Instruction_copy_def at_def vector_back_def four_operands_def
          psi_populated_def)
  show "toString always_true operand_text four_operands psi_populated = Some ''Psi r1, r2''"
    by (simp add: toString_def deref_def four_operands_def psi_populated_def always_true_def
          operand_text_def showNat.simps)
  show "toString always_true operand_text
        (four_operands @ [PredicateOperand None PredicateTrue, RegisterOperand 2,
                          RegisterOperand 1])
        \<lparr>opcode = Psi, guard = Some 4, block = None, instruction_id = 0,
         reads = [Some 4, Some 5], writes = [Some 6],
         view = PsiFields (Some 6) [Some 4, Some 5] [Some 3]\<rparr>
       = Some ''Psi r1, r2''"
    by (simp add: toString_def deref_def four_operands_def always_true_def operand_text_def
          showNat.simps)
  show "deref four_operands (Some 3) = Some (PredicateOperand (Some 0) StraightPredicate)"
    by (simp add: deref_def four_operands_def)
  show "deref ((four_operands @ [PredicateOperand None PredicateTrue, RegisterOperand 2,
                               RegisterOperand 1])
               [3 := PredicateOperand (Some 0) InversePredicate]) (Some 3)
       = Some (PredicateOperand (Some 0) InversePredicate)"
    by (simp add: deref_def four_operands_def)
qed

section \<open>Properties of the translator\<close>

subsection \<open>Opcode selection\<close>

lemma opcode_new_unary: "map_option opcode (new_unary oc) = Some oc"
  by (simp add: new_unary_def UnaryInstruction_new_def Instruction_new_def)

lemma opcode_new_binary: "map_option opcode (new_binary oc) = Some oc"
  by (simp add: new_binary_def BinaryInstruction_new_def Instruction_new_def)

lemma cvt_opcode:
  "ptx_opcode ptx = PTX_Cvt \<Longrightarrow> dataType (ptx_d ptx) = d \<Longrightarrow> dataType (ptx_a ptx) = a \<Longrightarrow>
   map_option opcode (newUnaryInstruction ptx) =
     (if isFloat d
      then (if isFloat a
            then (if d = f32 then (if a = f32 then Some Bitcast else Some Fptrunc)
                  else (if a = f32 then Some Fpext else Some Bitcast))
            else if isSigned a then Some Sitofp else Some Uitofp)
      else if isSigned d
      then (if isFloat a then Some Fptosi
            else if bytes a > bytes d then Some Trunc
            else if bytes d = bytes a then Some Bitcast
            else if isSigned a then Some Sext else Some Zext)
      else (if isFloat a then Some Fptoui
            else if bytes a > bytes d then Some Trunc
            else if bytes d = bytes a then Some Bitcast
            else Some Zext))"
  by (simp add: newUnaryInstruction_def opcode_new_unary if_distrib [of "map_option opcode"]
        split del: if_split cong: if_cong)

text \<open>
  C1. For every convert instruction without a modifier whose destination and source
  types are among the 8, 16, 32 and 64-bit signed and unsigned integers and the 32 and
  64-bit floats, the unary lowering takes the instruction and builds an instruction
  whose opcode is the entry of the conversion table for the class and width of the
  destination and of the source; no pair is left out.
\<close>

theorem conversion_table_exact:
  assumes "d \<in> set table_types" and "a \<in> set table_types"
    and "ptx_opcode ptx = PTX_Cvt" and "modifier ptx = Modifier_invalid"
    and "dataType (ptx_d ptx) = d" and "dataType (ptx_a ptx) = a"
  shows "isSimpleUnaryInstruction ptx
     \<and> map_option opcode (newUnaryInstruction ptx)
           = Some (conversion_table (typeClass d) (bits d) (typeClass a) (bits a))"
proof -
  from assms(1) have d: "d = s8 \<or> d = s16 \<or> d = s32 \<or> d = s64 \<or> d = u8 \<or> d = u16
      \<or> d = u32 \<or> d = u64 \<or> d = f32 \<or> d = f64"
    by (simp add: table_types_def)
  from assms(2) have a: "a = s8 \<or> a = s16 \<or> a = s32 \<or> a = s64 \<or> a = u8 \<or> a = u16
      \<or> a = u32 \<or> a = u64 \<or> a = f32 \<or> a = f64"
    by (simp add: table_types_def)
  have simple: "isSimpleUnaryInstruction ptx"
    using assms(3,4) by (simp add: isSimpleUnaryInstruction_def)
  have "map_option opcode (newUnaryInstruction ptx)
           = Some (conversion_table (typeClass d) (bits d) (typeClass a) (bits a))"
    unfolding cvt_opcode [OF assms(3,5,6)]
    using d a by (elim disjE) simp_all
  with simple show ?thesis by simp
qed

theorem conversion_table_exact_witness:
  "f64 \<in> set table_types \<and> f32 \<in> set table_types \<and> ptx_opcode cvt_f64_f32 = PTX_Cvt
   \<and> modifier cvt_f64_f32 = Modifier_invalid
   \<and> isSimpleUnaryInstruction cvt_f64_f32
   \<and> map_option opcode (newUnaryInstruction cvt_f64_f32) = Some Fpext"
  using conversion_table_exact [of f64 f32 cvt_f64_f32]
  by (simp add: table_types_def cvt_f64_f32_def PTXInstruction_init_def PTXOperand_init_def)

lemma binary_opcode:
  "map_option opcode (newBinaryInstruction ptx) =
     (case ptx_opcode ptx of
        PTX_Add \<Rightarrow> Some Add
      | PTX_And \<Rightarrow> Some And
      | PTX_Div \<Rightarrow>
          if isFloat (ptx_type ptx) then Some Fdiv
          else (if isSigned (ptx_type ptx) then Some Sdiv else Some Udiv)
      | PTX_Mul \<Rightarrow>
          if isFloat (ptx_type ptx) then Some Fmul else Some Mul
      | PTX_Or \<Rightarrow> Some Or
      | PTX_Rem \<Rightarrow>
          if isFloat (ptx_type ptx) then Some Frem
          else (if isSigned (ptx_type ptx) then Some Srem else Some Urem)
      | PTX_Shl \<Rightarrow> Some Shl
      | PTX_Sub \<Rightarrow> Some Sub
      | PTX_Xor \<Rightarrow> Some Xor
      | _ \<Rightarrow> None)"
  by (cases "ptx_opcode ptx")
     (simp_all add: newBinaryInstruction_def opcode_new_binary if_distrib [of "map_option opcode"]
        split del: if_split cong: if_cong)

text \<open>
  C4, as amended. For every source instruction, whatever its type: add, and, or, shl,
  sub and xor each lower to the VIR opcode of the same name; div and rem lower to the
  float variant for a float type, to the signed variant for a signed integer type and to
  the unsigned variant otherwise, so for every unsigned integer type; mul lowers to
  Fmul for a float type and to the one integer opcode Mul otherwise, so for every
  integer type, signed or unsigned. Each of these opcodes is a simple binary
  instruction. (The last part says which of the table's types are float and signed.)
\<close>

theorem binary_lowering:
  "(ptx_opcode ptx = PTX_Add \<longrightarrow> map_option opcode (newBinaryInstruction ptx) = Some Add)
    \<and> (ptx_opcode ptx = PTX_And \<longrightarrow> map_option opcode (newBinaryInstruction ptx) = Some And)
    \<and> (ptx_opcode ptx = PTX_Or \<longrightarrow> map_option opcode (newBinaryInstruction ptx) = Some Or)
    \<and> (ptx_opcode ptx = PTX_Shl \<longrightarrow> map_option opcode (newBinaryInstruction ptx) = Some Shl)
    \<and> (ptx_opcode ptx = PTX_Sub \<longrightarrow> map_option opcode (newBinaryInstruction ptx) = Some Sub)
    \<and> (ptx_opcode ptx = PTX_Xor \<longrightarrow> map_option opcode (newBinaryInstruction ptx) = Some Xor)
    \<and> (ptx_opcode ptx = PTX_Div \<longrightarrow> map_option opcode (newBinaryInstruction ptx) =
          Some (if isFloat (ptx_type ptx) then Fdiv
                else if isSigned (ptx_type ptx) then Sdiv else Udiv))
    \<and> (ptx_opcode ptx = PTX_Rem \<longrightarrow> map_option opcode (newBinaryInstruction ptx) =
          Some (if isFloat (ptx_type ptx) then Frem
                else if isSigned (ptx_type ptx) then Srem else Urem))
    \<and> (ptx_opcode ptx = PTX_Mul \<longrightarrow> map_option opcode (newBinaryInstruction ptx) =
          Some (if isFloat (ptx_type ptx) then Fmul else Mul))
    \<and> (ptx_opcode ptx \<in> {PTX_Add, PTX_And, PTX_Or, PTX_Shl, PTX_Sub, PTX_Xor, PTX_Div,
          PTX_Rem, PTX_Mul} \<longrightarrow> isSimpleBinaryInstruction ptx)
    \<and> (ty \<in> set table_types \<longrightarrow>
          isFloat ty = (typeClass ty = FloatClass)
          \<and> isSigned ty = (typeClass ty = SignedInt)
          \<and> (\<not> isFloat ty \<and> \<not> isSigned ty) = (typeClass ty = UnsignedInt))"
proof -
  have simple: "ptx_opcode ptx \<in> {PTX_Add, PTX_And, PTX_Or, PTX_Shl, PTX_Sub, PTX_Xor, PTX_Div,
          PTX_Rem, PTX_Mul} \<longrightarrow> isSimpleBinaryInstruction ptx"
    by (auto simp: isSimpleBinaryInstruction_def)
  have classes: "ty \<in> set table_types \<longrightarrow>
          isFloat ty = (typeClass ty = FloatClass)
          \<and> isSigned ty = (typeClass ty = SignedInt)
          \<and> (\<not> isFloat ty \<and> \<not> isSigned ty) = (typeClass ty = UnsignedInt)"
    by (auto simp: table_types_def)
  have opcodes: "(ptx_opcode ptx = PTX_Add \<longrightarrow> map_option opcode (newBinaryInstruction ptx) = Some Add)
    \<and> (ptx_opcode ptx = PTX_And \<longrightarrow> map_option opcode (newBinaryInstruction ptx) = Some And)
    \<and> (ptx_opcode ptx = PTX_Or \<longrightarrow> map_option opcode (newBinaryInstruction ptx) = Some Or)
    \<and> (ptx_opcode ptx = PTX_Shl \<longrightarrow> map_option opcode (newBinaryInstruction ptx) = Some Shl)
    \<and> (ptx_opcode ptx = PTX_Sub \<longrightarrow> map_option opcode (newBinaryInstruction ptx) = Some Sub)
    \<and> (ptx_opcode ptx = PTX_Xor \<longrightarrow> map_option opcode (newBinaryInstruction ptx) = Some Xor)
    \<and> (ptx_opcode ptx = PTX_Div \<longrightarrow> map_option opcode (newBinaryInstruction ptx) =
          Some (if isFloat (ptx_type ptx) then Fdiv
                else if isSigned (ptx_type ptx) then Sdiv else Udiv))
    \<and> (ptx_opcode ptx = PTX_Rem \<longrightarrow> map_option opcode (newBinaryInstruction ptx) =
          Some (if isFloat (ptx_type ptx) then Frem
                else if isSigned (ptx_type ptx) then Srem else Urem))
    \<and> (ptx_opcode ptx = PTX_Mul \<longrightarrow> map_option opcode (newBinaryInstruction ptx) =
          Some (if isFloat (ptx_type ptx) then Fmul else Mul))"
    unfolding binary_opcode by simp
  from opcodes simple classes show ?thesis by blast
qed

theorem binary_lowering_witness:
  "ptx_opcode add_s32 = PTX_Add
   \<and> isSimpleBinaryInstruction add_s32
   \<and> map_option opcode (newBinaryInstruction add_s32) = Some Add
   \<and> ptx_opcode not_b32 \<noteq> PTX_And
   \<and> map_option opcode
        (newBinaryInstruction (PTXInstruction_init\<lparr>ptx_opcode := PTX_And, ptx_type := b32\<rparr>))
       = Some And
   \<and> map_option opcode
        (newBinaryInstruction (PTXInstruction_init\<lparr>ptx_opcode := PTX_Div, ptx_type := u32\<rparr>))
       = Some Udiv
   \<and> map_option opcode
        (newBinaryInstruction (PTXInstruction_init\<lparr>ptx_opcode := PTX_Rem, ptx_type := s16\<rparr>))
       = Some Srem
   \<and> map_option opcode
        (newBinaryInstruction (PTXInstruction_init\<lparr>ptx_opcode := PTX_Mul, ptx_type := f64\<rparr>))
       = Some Fmul
   \<and> u32 \<in> set table_types \<and> typeClass u32 = UnsignedInt"
  using binary_lowering [of add_s32 u32]
    binary_lowering [of "PTXInstruction_init\<lparr>ptx_opcode := PTX_And, ptx_type := b32\<rparr>" u32]
    binary_lowering [of "PTXInstruction_init\<lparr>ptx_opcode := PTX_Div, ptx_type := u32\<rparr>" u32]
    binary_lowering [of "PTXInstruction_init\<lparr>ptx_opcode := PTX_Rem, ptx_type := s16\<rparr>" u32]
    binary_lowering [of "PTXInstruction_init\<lparr>ptx_opcode := PTX_Mul, ptx_type := f64\<rparr>" u32]
  by (simp add: table_types_def add_s32_def not_b32_def PTXInstruction_init_def)

text \<open>
  The claim as stated fails for mul: a signed and an unsigned multiplication lower to the
  same opcode.
\<close>

theorem mul_has_one_integer_variant:
  "isSigned s32 \<and> \<not> isSigned u32 \<and> \<not> isFloat s32 \<and> \<not> isFloat u32
   \<and> map_option opcode
        (newBinaryInstruction (PTXInstruction_init\<lparr>ptx_opcode := PTX_Mul, ptx_type := s32\<rparr>))
      = Some Mul
   \<and> map_option opcode
        (newBinaryInstruction (PTXInstruction_init\<lparr>ptx_opcode := PTX_Mul, ptx_type := u32\<rparr>))
      = Some Mul"
  by (simp add: binary_opcode PTXInstruction_init_def)

subsection \<open>Instructions without a lowering rule\<close>

text \<open>
  C5. The claim fails on the code for logical not. An opcode that neither list of simple
  instructions names ends in the failed assertion of \<^verbatim>\<open>_translateInstruction\<close>, as
  the claim says. But \<^verbatim>\<open>isSimpleBinaryInstruction\<close> names \<^verbatim>\<open>Not\<close> and
  \<^verbatim>\<open>newBinaryInstruction\<close> has no case for it and returns 0: with an always-true guard
  the translation of a not instruction, in every state of the translator, ends in the
  call of \<^verbatim>\<open>setGuard\<close> through that null pointer, not in the assertion.
\<close>

theorem not_ends_in_a_null_dereference:
  "translateInstruction tempName (ptx\<lparr>ptx_opcode := PTX_Other n\<rparr>) t
     = Inl (NoInstructionTranslation (ptx\<lparr>ptx_opcode := PTX_Other n\<rparr>))
   \<and> translateInstruction tempName
        (ptx\<lparr>ptx_opcode := PTX_Not, ptx_pg := (ptx_pg ptx)\<lparr>condition := PT\<rparr>\<rparr>) t
     = Inl NullDereference
   \<and> translateInstruction tempName not_b32 in_kernel = Inl NullDereference"
  by (simp add: translateInstruction_def translateComplexInstruction_def
        translateSimpleBinaryInstruction_def isSimpleBinaryInstruction_def
        translateSimpleUnaryInstruction_def isSimpleUnaryInstruction_def
        newBinaryInstruction_def translatePredicateOperand_def and_then_def new_in_def
        call_def not_b32_def PTXInstruction_init_def PTXOperand_init_def)

subsection \<open>Special registers\<close>

text \<open>
  C6. The claim fails on the code for the names. Two requests for the lanes z and w of
  the vector special \<^verbatim>\<open>%tid\<close>, at the start of a kernel, give two different virtual
  registers (0 and 1), and a third request for the lane z gives register 0 again and
  creates none, as the claim says; but both registers are named \<^verbatim>\<open>%tid\<close>: the lane
  suffix is left out for every lane whose index differs from \<^verbatim>\<open>v1\<close>, so it is added
  for one lane at most.
\<close>

theorem special_lanes_share_a_name:
  "and_then (getSpecialVirtualRegister tid iz in_kernel) (\<lambda>(r1, t1).
     and_then (getSpecialVirtualRegister tid iw t1) (\<lambda>(r2, t2).
       and_then (getSpecialVirtualRegister tid iz t2) (\<lambda>(r3, t3).
         Inr (r1, r2, r3,
              map (map vr_name \<circ> virtual_registers) (module_functions (m_module t3))))))
   = Inr (0, 1, 0, [[''%tid'', ''%tid'']])"
  by (simp add: getSpecialVirtualRegister_def in_kernel_def Translator_new_def newFunction_def
        and_then_def isScalarSpecial_def v1_def getType_def Compiler_getType_def
        current_function_def set_current_function_def newVirtualRegister_def Let_def)

theorem special_lanes_share_a_name_witness:
  "\<exists>r1 r2 r3 name1 name2.
     and_then (getSpecialVirtualRegister tid iz in_kernel) (\<lambda>(r1, t1).
       and_then (getSpecialVirtualRegister tid iw t1) (\<lambda>(r2, t2).
         and_then (getSpecialVirtualRegister tid iz t2) (\<lambda>(r3, t3).
           Inr (r1, r2, r3,
                map (map vr_name \<circ> virtual_registers) (module_functions (m_module t3))))))
     = Inr (r1, r2, r3, [[name1, name2]]) \<and> r1 \<noteq> r2 \<and> r3 = r1 \<and> name1 = name2"
  using special_lanes_share_a_name by simp

subsection \<open>Register declarations\<close>

lemma translateRegisterValue_declares:
  "translateRegisterValue r ty t = Inr t' \<Longrightarrow>
   m_registers t' r \<noteq> None \<and> (\<forall>r'. m_registers t r' \<noteq> None \<longrightarrow> m_registers t' r' \<noteq> None)"
  by (auto simp: translateRegisterValue_def and_then_def Let_def set_current_function_def
        split: if_splits sum.splits option.splits prod.splits)

lemma translateRegisterValues_keeps:
  "translateRegisterValues decls t = Inr t' \<Longrightarrow> m_registers t r \<noteq> None \<Longrightarrow>
   m_registers t' r \<noteq> None"
proof (induction decls arbitrary: t)
  case Nil
  then show ?case by simp
next
  case (Cons x decls)
  obtain r0 ty0 where x: "x = (r0, ty0)" by (cases x)
  from Cons.prems(1) x obtain t1 where 1: "translateRegisterValue r0 ty0 t = Inr t1"
    and 2: "translateRegisterValues decls t1 = Inr t'"
    by (auto simp: and_then_def split: sum.splits)
  from translateRegisterValue_declares [OF 1] Cons.prems(2) have "m_registers t1 r \<noteq> None"
    by blast
  from Cons.IH [OF 2 this] show ?case .
qed

lemma translateRegisterValues_declares:
  "(r, ty) \<in> set decls \<Longrightarrow> translateRegisterValues decls t = Inr t' \<Longrightarrow>
   m_registers t' r \<noteq> None"
proof (induction decls arbitrary: t)
  case Nil
  then show ?case by simp
next
  case (Cons x decls)
  obtain r0 ty0 where x: "x = (r0, ty0)" by (cases x)
  from Cons.prems(2) x obtain t1 where 1: "translateRegisterValue r0 ty0 t = Inr t1"
    and 2: "translateRegisterValues decls t1 = Inr t'"
    by (auto simp: and_then_def split: sum.splits)
  show ?case
  proof (cases "(r, ty) = x")
    case True
    with x translateRegisterValue_declares [OF 1] have "m_registers t1 r \<noteq> None" by simp
    from translateRegisterValues_keeps [OF 2 this] show ?thesis .
  next
    case False
    with Cons.prems(1) have "(r, ty) \<in> set decls" by simp
    from Cons.IH [OF this 2] show ?thesis .
  qed
qed

lemma translateRegisterValues_append:
  "translateRegisterValues (xs @ ys) t
     = and_then (translateRegisterValues xs t) (translateRegisterValues ys)"
proof (induction xs arbitrary: t)
  case Nil
  then show ?case by (simp add: and_then_def)
next
  case (Cons x xs)
  obtain r0 ty0 where x: "x = (r0, ty0)" by (cases x)
  show ?case
    unfolding x using Cons.IH
    by (cases "translateRegisterValue r0 ty0 t") (simp_all add: and_then_def)
qed

text \<open>
  On the table of declared registers: once a list of declarations that holds the source
  register \<open>r\<close> has been translated, declaring \<open>r\<close> again (with any type) stops with
  the \<^verbatim>\<open>runtime_error\<close> \<^verbatim>\<open>Added duplicate virtual register 'r<id>'\<close>, and so does
  the loop over a list of referenced registers that declares \<open>r\<close> a second time; and
  lowering a register operand whose source register is not in the table stops with the
  \<^verbatim>\<open>runtime_error\<close> \<^verbatim>\<open>PTX register r<id> used without declaration.\<close> Both messages
  hold the name of the register, \<^verbatim>\<open>r\<close> and the decimal id.
\<close>

lemma register_error_messages:
  "((r, ty) \<in> set decls \<and> translateRegisterValues decls t = Inr t1 \<longrightarrow>
      translateRegisterValue r ty' t1 =
        Inl (RuntimeError (''Added duplicate virtual register '' @ [CHR 0x27] @ ''r''
               @ showNat r @ [CHR 0x27]))
      \<and> translateRegisterValues (decls @ (r, ty') # rest) t =
        Inl (RuntimeError (''Added duplicate virtual register '' @ [CHR 0x27] @ ''r''
               @ showNat r @ [CHR 0x27])))
   \<and> (m_registers t r = None \<and> addressMode ptx = Register \<and> reg ptx = r \<longrightarrow>
      newTranslatedOperand tempName ptxInstruction ptx t =
        Inl (RuntimeError (''PTX register r'' @ showNat r @ '' used without declaration.'')))"
proof (intro conjI impI)
  assume a: "(r, ty) \<in> set decls \<and> translateRegisterValues decls t = Inr t1"
  then have "m_registers t1 r \<noteq> None"
    using translateRegisterValues_declares by blast
  then show again: "translateRegisterValue r ty' t1 =
        Inl (RuntimeError (''Added duplicate virtual register '' @ [CHR 0x27] @ ''r''
               @ showNat r @ [CHR 0x27]))"
    by (simp add: translateRegisterValue_def)
  show "translateRegisterValues (decls @ (r, ty') # rest) t =
        Inl (RuntimeError (''Added duplicate virtual register '' @ [CHR 0x27] @ ''r''
               @ showNat r @ [CHR 0x27]))"
    using a again by (simp add: translateRegisterValues_append and_then_def)
next
  assume "m_registers t r = None \<and> addressMode ptx = Register \<and> reg ptx = r"
  then show "newTranslatedOperand tempName ptxInstruction ptx t =
        Inl (RuntimeError (''PTX register r'' @ showNat r @ '' used without declaration.''))"
    by (simp add: newTranslatedOperand_def getRegister_def and_then_def)
qed

text \<open>
  C9. The claim fails on the code for a kernel that is not the first: the table
  \<^verbatim>\<open>_registers\<close> is a member of the translator that no function clears, so it holds the
  declarations of every kernel translated before. The kernel \<^verbatim>\<open>k2\<close> uses register 1
  and declares none. Translated alone it stops with \<^verbatim>\<open>PTX register r1 used without
  declaration.\<close>, as the claim says; translated after a kernel that declared register
  1 it is accepted, its function has no virtual register, and its operand is the
  register of the other function. And when \<^verbatim>\<open>k2\<close> declares register 1 itself, once, the
  translation stops with \<^verbatim>\<open>Added duplicate virtual register 'r1'\<close>.
\<close>

theorem registers_outlive_their_kernel:
  "translate [] second_kernel_alone Translator_new
     = Inl (RuntimeError ''PTX register r1 used without declaration.'')
   \<and> (case translate [] second_kernel_after_first Translator_new of
         Inl e \<Rightarrow> None
       | Inr t \<Rightarrow>
           Some (map (\<lambda>f. (function_name f, map vr_name (virtual_registers f),
                            map (map opcode \<circ> instructions) (basic_blocks f)))
                   (module_functions (m_module t)),
                 m_heap t ! 1, m_heap t ! 9))
     = Some ([(''k'', [''r1''], [[Add], [Add]]), (''k2'', [], [[Add], [Add]])],
             RegisterOperand 0, RegisterOperand 0)
   \<and> translate [] two_kernels_declaring_r1 Translator_new
     = Inl (RuntimeError (''Added duplicate virtual register '' @ [CHR 0x27] @ ''r1''
              @ [CHR 0x27]))"
proof (intro conjI)
  note defs = translate_def translateKernel_def one_block_kernel_def undeclared_use_kernel_def
        Translator_new_def newFunction_def
        translateLinkingDirective_def translateRegisterValue_def
        and_then_def getType_of_def getType_def Compiler_getType_def showNat.simps
        current_function_def set_current_function_def newVirtualRegister_def Let_def
        translateBasicBlock_def newBasicBlock_def translateInstruction_def
        translateComplexInstruction_def translateSimpleBinaryInstruction_def
        isSimpleBinaryInstruction_def newBinaryInstruction_def new_binary_def
        BinaryInstruction_new_def Instruction_new_def translatePredicateOperand_def
        new_in_def call_def setGuard_def setD_def setA_def setB_def newTranslatedOperand_def
        getRegister_def block_push_back_def push_back_def add_s32_def PTXInstruction_init_def
        PTXOperand_init_def
  show "translate [] second_kernel_alone Translator_new
     = Inl (RuntimeError ''PTX register r1 used without declaration.'')"
    by (simp add: second_kernel_alone_def defs)
  show "(case translate [] second_kernel_after_first Translator_new of
         Inl e \<Rightarrow> None
       | Inr t \<Rightarrow>
           Some (map (\<lambda>f. (function_name f, map vr_name (virtual_registers f),
                            map (map opcode \<circ> instructions) (basic_blocks f)))
                   (module_functions (m_module t)),
                 m_heap t ! 1, m_heap t ! 9))
     = Some ([(''k'', [''r1''], [[Add], [Add]]), (''k2'', [], [[Add], [Add]])],
             RegisterOperand 0, RegisterOperand 0)"
    by (simp add: second_kernel_after_first_def defs)
  show "translate [] two_kernels_declaring_r1 Translator_new
     = Inl (RuntimeError (''Added duplicate virtual register '' @ [CHR 0x27] @ ''r1''
              @ [CHR 0x27]))"
    by (simp add: two_kernels_declaring_r1_def defs)
qed

subsection \<open>Blocks of a kernel\<close>

text \<open>
  C2. The claim fails on the code: both loops of \<^verbatim>\<open>_translateKernel\<close> call
  \<^verbatim>\<open>_translateBasicBlock\<close>. For the kernel with the one executable block \<^verbatim>\<open>BB\<close>
  holding one add instruction, the translated function has two blocks named \<^verbatim>\<open>BB\<close>,
  each holding an \<^verbatim>\<open>Add\<close>: the block is created twice and its instruction is lowered
  twice.
\<close>

theorem blocks_translated_twice:
  "(case translateKernel [] one_block_kernel Translator_new of
      Inl e \<Rightarrow> None
    | Inr t \<Rightarrow> Some (map (map (\<lambda>b. (bb_name b, map opcode (instructions b))) \<circ> basic_blocks)
                   (module_functions (m_module t))))
   = Some [[(''BB'', [Add]), (''BB'', [Add])]]"
  by (simp add: translateKernel_def one_block_kernel_def Translator_new_def newFunction_def
        translateLinkingDirective_def translateRegisterValue_def
        and_then_def getType_of_def getType_def Compiler_getType_def showNat.simps
        current_function_def set_current_function_def newVirtualRegister_def Let_def
        translateBasicBlock_def newBasicBlock_def translateInstruction_def
        translateComplexInstruction_def translateSimpleBinaryInstruction_def
        isSimpleBinaryInstruction_def newBinaryInstruction_def new_binary_def
        BinaryInstruction_new_def Instruction_new_def translatePredicateOperand_def
        new_in_def call_def setGuard_def setD_def setA_def setB_def newTranslatedOperand_def
        getRegister_def block_push_back_def push_back_def add_s32_def PTXInstruction_init_def
        PTXOperand_init_def)

end
